theory Spec2Isabelle
  imports Main "HOL-Library.Multiset"
begin

section \<open>Passport vault: the record store, the request handlers and the expiration job\<close>

text \<open>
  The development embeds \<^verbatim>\<open>server/storage.ts\<close> (class \<^verbatim>\<open>DatabaseStorage\<close>) and
  \<^verbatim>\<open>server/routes.ts\<close> (the handlers of \<^verbatim>\<open>registerRoutes\<close>, \<^verbatim>\<open>logActivity\<close>,
  \<^verbatim>\<open>generateQRCode\<close> and the body of the job that \<^verbatim>\<open>setupExpirationCron\<close> schedules).
  The database, the file system, the console and the clock are one explicit state, the
  \<open>world\<close>; every storage method and every handler takes the world and returns the new
  one. A call that throws returns \<open>Inl\<close> of the error's message.
\<close>

subsection \<open>JavaScript values\<close>

text \<open>
  A JavaScript number as far as the code uses it: an integer, or any other number
  (\<^verbatim>\<open>NaN\<close>, an infinity, a fraction), which no integer column and no integer comparison
  of the database accepts.
\<close>

datatype jsnum = JInt int | JOtherNum

datatype jsval = JStr string | JNumber jsnum | JBool bool | JDate int

text \<open>An object with string keys: the multipart form body and the update payload.\<close>

type_synonym obj = "string \<rightharpoonup> jsval"

subsection \<open>Tables\<close>

text \<open>
  Modelled from the spec: the table declarations of \<^verbatim>\<open>@shared/schema\<close> (\<^verbatim>\<open>users\<close>,
  \<^verbatim>\<open>groups\<close>, \<^verbatim>\<open>people\<close>, \<^verbatim>\<open>activityLogs\<close>) are not among the sources. The records
  below have the attributes that section 3 of the specification lists, under the property
  names the code reads and writes. Times are milliseconds since the epoch. A text column
  that may be left out of an insert is an \<open>option\<close>, \<open>None\<close> being SQL \<^verbatim>\<open>NULL\<close>. The
  tables are independent lists of rows: the specification records that the source defines no
  cascade between groups and people.
\<close>

record user =
  u_id :: string
  email :: "string option"
  firstName :: "string option"
  lastName :: "string option"
  profileImageUrl :: "string option"
  isMainAdmin :: bool
  isActive :: bool
  u_createdAt :: int
  u_updatedAt :: int

record group =
  g_id :: int
  g_name :: string
  g_createdBy :: string
  g_createdAt :: int
  g_updatedAt :: int

record person =
  p_id :: int
  publicId :: string
  fullName :: string
  birthDate :: string
  passportNumber :: string
  expirationDate :: string
  p_notes :: string
  groupId :: int
  status :: bool
  photoUrl :: "string option"
  qrCodeUrl :: "string option"
  createdBy :: string
  createdAt :: int
  updatedAt :: int

text \<open>
  The action of a log entry is a localized (Russian) sentence built from a template and
  at most one argument; the model keeps the template and the argument.
\<close>

datatype action =
    PassportAutoDeactivated
  | PassportCreated string
  | PassportUpdated string
  | PassportDeleted string
  | GroupDeleted string

record activityLog =
  action :: action
  entityType :: string
  entityId :: string
  performedBy :: string
  details :: "(string \<times> jsval) list option"
  timestamp :: int

subsection \<open>The world\<close>

text \<open>
  Every call to an external collaborator (a database statement, \<^verbatim>\<open>fs.unlinkSync\<close>,
  \<^verbatim>\<open>QRCode.toFile\<close>) may throw. Which calls throw, and with which message, is part of
  the world: \<open>failing w c = Some m\<close> says that call \<open>c\<close> throws an error with message
  \<open>m\<close>. A call is named by its operation and its key (the id, the entity id of a log
  entry, the path of a file); no handler issues the same call twice in one run when ids are
  unique, so nothing is lost by giving one outcome to each call.
\<close>

datatype call =
    DbGetAllPeople
  | DbGetPerson jsnum
  | DbCreatePerson
  | DbUpdatePerson jsnum
  | DbDeletePerson jsnum
  | DbMarkPersonExpired jsnum
  | DbCreateActivityLog string
  | DbGetAllActivityLogs
  | DbGetGroup jsnum
  | DbDeleteGroup jsnum
  | DbUpsertUser string
  | FsUnlink string
  | QrToFile string

text \<open>
  The world: the four tables, each a list of rows in insertion order; the paths of the
  files that exist; the time that \<^verbatim>\<open>new Date()\<close> and the defaults of the database read
  (one reading during one run of a handler; between runs the clock is set freely); the next
  value of the sequence behind \<^verbatim>\<open>people.id\<close>; the lines printed on the console; and the
  calls that fail.
\<close>

record world =
  users :: "user list"
  groups :: "group list"
  people :: "person list"
  activityLogs :: "activityLog list"
  files :: "string list"
  clock :: int
  nextPersonId :: int
  console :: "string list"
  failing :: "call \<Rightarrow> string option"

text \<open>
  Modelled from the spec: the type \<^verbatim>\<open>InsertPerson\<close> of \<^verbatim>\<open>@shared/schema\<close> is not
  among the sources. It has the fields that the creation handler validates.
\<close>

record insertPerson =
  in_fullName :: string
  in_birthDate :: string
  in_passportNumber :: string
  in_expirationDate :: string
  in_notes :: string
  in_groupId :: int
  in_status :: bool
  in_photoUrl :: string
  in_createdBy :: string

text \<open>
  What the code takes from the JavaScript runtime and from modules that are not among the
  sources: \<^verbatim>\<open>Number(s)\<close> on a string, \<^verbatim>\<open>new Date(s).getTime()\<close> (\<open>None\<close> is the
  invalid date), \<^verbatim>\<open>setHours(0, 0, 0, 0)\<close> on a valid date in the server's time zone,
  \<^verbatim>\<open>path.join(process.cwd(), u)\<close>, \<^verbatim>\<open>path.join(qrCodesDir, f)\<close> and
  \<^verbatim>\<open>insertPersonSchema.parse\<close>, which returns the validated input or throws.
\<close>

record env =
  parseNumber :: "string \<Rightarrow> jsnum"
  parseDate :: "string \<Rightarrow> int option"
  startOfDay :: "int \<Rightarrow> int"
  cwdPath :: "string \<Rightarrow> string"
  qrCodesPath :: "string \<Rightarrow> string"
  parsePerson :: "obj \<Rightarrow> string + insertPerson"

text \<open>\<^verbatim>\<open>Number(x)\<close> for a form field: \<^verbatim>\<open>Number(undefined)\<close> is \<^verbatim>\<open>NaN\<close>.\<close>

definition Number :: "env \<Rightarrow> string option \<Rightarrow> jsnum" where
  "Number e x = (case x of None \<Rightarrow> JOtherNum | Some s \<Rightarrow> parseNumber e s)"

text \<open>\<^verbatim>\<open>n.toString()\<close> for an integer: decimal digits, with a sign.\<close>

fun digitsOf :: "nat \<Rightarrow> string" where
  "digitsOf n =
     (if n < 10 then [''0123456789'' ! n]
      else digitsOf (n div 10) @ [''0123456789'' ! (n mod 10)])"

declare digitsOf.simps [simp del]

definition toString :: "int \<Rightarrow> string" where
  "toString i = (if i < 0 then CHR ''-'' # digitsOf (nat (- i)) else digitsOf (nat i))"

text \<open>\<^verbatim>\<open>m.includes(s)\<close> on strings.\<close>

fun includes_str :: "string \<Rightarrow> string \<Rightarrow> bool" where
  "includes_str [] s = (s = [])"
| "includes_str (c # cs) s = (take (length s) (c # cs) = s \<or> includes_str cs s)"

subsection \<open>storage.ts: people\<close>

text \<open>
  \<^verbatim>\<open>getAllPeople\<close>: all rows, newest first by \<open>createdAt\<close>; an error whose message
  includes "endpoint has been disabled" gives the empty list, any other error is rethrown.
\<close>

definition getAllPeople :: "world \<Rightarrow> (string + person list) \<times> world" where
  "getAllPeople w =
     (case failing w DbGetAllPeople of
        Some m \<Rightarrow> if includes_str m ''endpoint has been disabled'' then (Inr [], w) else (Inl m, w)
      | None \<Rightarrow> (Inr (rev (sort_key createdAt (people w))), w))"

text \<open>
  A statement with \<^verbatim>\<open>where(eq(people.id, id))\<close>: an integer selects the rows with that
  id; any other number is rejected by the database.
\<close>

definition badId :: string where
  "badId = ''invalid input syntax for type integer''"

text \<open>\<^verbatim>\<open>getPerson\<close>: the first row with the id, \<^verbatim>\<open>undefined\<close> when there is none.\<close>

definition getPerson :: "jsnum \<Rightarrow> world \<Rightarrow> (string + person option) \<times> world" where
  "getPerson i w =
     (case failing w (DbGetPerson i) of
        Some m \<Rightarrow> (Inl m, w)
      | None \<Rightarrow>
          (case i of
             JOtherNum \<Rightarrow> (Inl badId, w)
           | JInt n \<Rightarrow> (Inr (find (\<lambda>p. p_id p = n) (people w)), w)))"

text \<open>
  \<^verbatim>\<open>markPersonExpired\<close>: \<^verbatim>\<open>set({ status: false, updatedAt: new Date() })\<close> on the rows
  with the id; returns the first updated row, \<^verbatim>\<open>undefined\<close> when there is none.
\<close>

definition markPersonExpired :: "jsnum \<Rightarrow> world \<Rightarrow> (string + person option) \<times> world" where
  "markPersonExpired i w =
     (case failing w (DbMarkPersonExpired i) of
        Some m \<Rightarrow> (Inl m, w)
      | None \<Rightarrow>
          (case i of
             JOtherNum \<Rightarrow> (Inl badId, w)
           | JInt n \<Rightarrow>
               (let upd = (\<lambda>p. p\<lparr>status := False, updatedAt := clock w\<rparr>)
                in (Inr (map_option upd (find (\<lambda>p. p_id p = n) (people w))),
                    w\<lparr>people := map (\<lambda>p. if p_id p = n then upd p else p) (people w)\<rparr>))))"


subsection \<open>storage.ts: the activity log\<close>

text \<open>
  \<^verbatim>\<open>createActivityLog\<close>: appends one entry; the timestamp is the column's default, the
  time of the insert.
\<close>

definition createActivityLog ::
  "action \<Rightarrow> string \<Rightarrow> string \<Rightarrow> string \<Rightarrow> (string \<times> jsval) list option \<Rightarrow> world
     \<Rightarrow> (string + activityLog) \<times> world" where
  "createActivityLog a t i u d w =
     (case failing w (DbCreateActivityLog i) of
        Some m \<Rightarrow> (Inl m, w)
      | None \<Rightarrow>
          (let l = \<lparr>action = a, entityType = t, entityId = i, performedBy = u, details = d,
                    timestamp = clock w\<rparr>
           in (Inr l, w\<lparr>activityLogs := activityLogs w @ [l]\<rparr>)))"

subsection \<open>routes.ts: logActivity and the expiration job\<close>

text \<open>\<^verbatim>\<open>logActivity\<close>: an error of \<^verbatim>\<open>createActivityLog\<close> is caught and printed.\<close>

definition logActivity ::
  "action \<Rightarrow> string \<Rightarrow> string \<Rightarrow> string \<Rightarrow> (string \<times> jsval) list option \<Rightarrow> world \<Rightarrow> world" where
  "logActivity a t i u d w =
     (case createActivityLog a t i u d w of
        (Inl m, w') \<Rightarrow> w'\<lparr>console := console w' @ [''Error logging activity: '' @ m]\<rparr>
      | (Inr l, w') \<Rightarrow> w')"

text \<open>
  The test of the job's loop body: \<^verbatim>\<open>person.status\<close> and, with both dates set to the
  start of their day, \<^verbatim>\<open>expirationDate < today\<close>. An invalid date compares false.
\<close>

definition isExpired :: "env \<Rightarrow> int \<Rightarrow> person \<Rightarrow> bool" where
  "isExpired e today p =
     (status p \<and>
      (case parseDate e (expirationDate p) of
         None \<Rightarrow> False
       | Some t \<Rightarrow> startOfDay e t < today))"

definition expiryDetails :: "person \<Rightarrow> (string \<times> jsval) list" where
  "expiryDetails p =
     [(''fullName'', JStr (fullName p)), (''expirationDate'', JStr (expirationDate p))]"

text \<open>
  The \<^verbatim>\<open>for (const person of people)\<close> loop: it runs over the rows as they were loaded,
  and an error of \<^verbatim>\<open>markPersonExpired\<close> leaves the loop.
\<close>

fun expireLoop :: "env \<Rightarrow> int \<Rightarrow> person list \<Rightarrow> world \<Rightarrow> (string + unit) \<times> world" where
  "expireLoop e today [] w = (Inr (), w)"
| "expireLoop e today (p # ps) w =
     (if isExpired e today p then
        (case markPersonExpired (JInt (p_id p)) w of
           (Inl m, w1) \<Rightarrow> (Inl m, w1)
         | (Inr r, w1) \<Rightarrow>
             (let w2 = logActivity PassportAutoDeactivated ''passport'' (toString (p_id p))
                         ''system'' (Some (expiryDetails p)) w1;
                  w3 = w2\<lparr>console := console w2 @
                         [''Marked passport '' @ toString (p_id p) @ '' ('' @ fullName p @
                          '') as expired'']\<rparr>
              in expireLoop e today ps w3))
      else expireLoop e today ps w)"

text \<open>
  The callback given to \<^verbatim>\<open>cron.schedule\<close>: one run of the expiration check. Every error
  is caught and printed; the result says whether the run reached the end of the loop.
\<close>

definition expirationCheck :: "env \<Rightarrow> world \<Rightarrow> (string + unit) \<times> world" where
  "expirationCheck e w0 =
     (let w = w0\<lparr>console := console w0 @ [''Running expiration check...'']\<rparr>
      in case getAllPeople w of
           (Inl m, w1) \<Rightarrow>
             (Inl m, w1\<lparr>console := console w1 @ [''Error in expiration cron: '' @ m]\<rparr>)
         | (Inr ps, w1) \<Rightarrow>
             (let today = startOfDay e (clock w1)
              in case expireLoop e today ps w1 of
                   (Inl m, w2) \<Rightarrow>
                     (Inl m, w2\<lparr>console := console w2 @ [''Error in expiration cron: '' @ m]\<rparr>)
                 | (Inr u, w2) \<Rightarrow> (Inr u, w2)))"

subsection \<open>storage.ts: writing a passport\<close>

text \<open>
  Modelled from the spec: the columns of the table \<^verbatim>\<open>people\<close> (\<^verbatim>\<open>@shared/schema\<close> is
  not among the sources), under their property names, each with the kind of value it takes.
\<close>

datatype coltype = TText | TInteger | TBoolean | TTimestamp

definition peopleColumns :: "(string \<times> coltype) list" where
  "peopleColumns =
     [(''id'', TInteger), (''publicId'', TText), (''fullName'', TText), (''birthDate'', TText),
      (''passportNumber'', TText), (''expirationDate'', TText), (''notes'', TText),
      (''groupId'', TInteger), (''status'', TBoolean), (''photoUrl'', TText),
      (''qrCodeUrl'', TText), (''createdBy'', TText), (''createdAt'', TTimestamp),
      (''updatedAt'', TTimestamp)]"

fun accepts :: "coltype \<Rightarrow> jsval \<Rightarrow> bool" where
  "accepts TText (JStr s) = True"
| "accepts TInteger (JNumber (JInt n)) = True"
| "accepts TBoolean (JBool b) = True"
| "accepts TTimestamp (JDate t) = True"
| "accepts t v = False"

text \<open>
  The values of a \<^verbatim>\<open>set({...})\<close>: a key that names no column is ignored; a value that
  its column does not take makes the statement fail.
\<close>

definition illTyped :: "obj \<Rightarrow> bool" where
  "illTyped v =
     list_ex (\<lambda>(k, t). case v k of None \<Rightarrow> False | Some x \<Rightarrow> \<not> accepts t x) peopleColumns"

definition textOr :: "obj \<Rightarrow> string \<Rightarrow> string \<Rightarrow> string" where
  "textOr v k old = (case v k of Some (JStr s) \<Rightarrow> s | _ \<Rightarrow> old)"

definition textOptOr :: "obj \<Rightarrow> string \<Rightarrow> string option \<Rightarrow> string option" where
  "textOptOr v k old = (case v k of Some (JStr s) \<Rightarrow> Some s | _ \<Rightarrow> old)"

definition intOr :: "obj \<Rightarrow> string \<Rightarrow> int \<Rightarrow> int" where
  "intOr v k old = (case v k of Some (JNumber (JInt n)) \<Rightarrow> n | _ \<Rightarrow> old)"

definition boolOr :: "obj \<Rightarrow> string \<Rightarrow> bool \<Rightarrow> bool" where
  "boolOr v k old = (case v k of Some (JBool b) \<Rightarrow> b | _ \<Rightarrow> old)"

definition dateOr :: "obj \<Rightarrow> string \<Rightarrow> int \<Rightarrow> int" where
  "dateOr v k old = (case v k of Some (JDate t) \<Rightarrow> t | _ \<Rightarrow> old)"

text \<open>A row after a \<^verbatim>\<open>set\<close> of well-typed values: every column that has a key is written.\<close>

definition setColumns :: "obj \<Rightarrow> person \<Rightarrow> person" where
  "setColumns v p =
     \<lparr>p_id = intOr v ''id'' (p_id p),
      publicId = textOr v ''publicId'' (publicId p),
      fullName = textOr v ''fullName'' (fullName p),
      birthDate = textOr v ''birthDate'' (birthDate p),
      passportNumber = textOr v ''passportNumber'' (passportNumber p),
      expirationDate = textOr v ''expirationDate'' (expirationDate p),
      p_notes = textOr v ''notes'' (p_notes p),
      groupId = intOr v ''groupId'' (groupId p),
      status = boolOr v ''status'' (status p),
      photoUrl = textOptOr v ''photoUrl'' (photoUrl p),
      qrCodeUrl = textOptOr v ''qrCodeUrl'' (qrCodeUrl p),
      createdBy = textOr v ''createdBy'' (createdBy p),
      createdAt = dateOr v ''createdAt'' (createdAt p),
      updatedAt = dateOr v ''updatedAt'' (updatedAt p)\<rparr>"

definition badValue :: string where
  "badValue = ''invalid input value for column''"

text \<open>
  \<^verbatim>\<open>updatePerson\<close>: \<^verbatim>\<open>set({ ...personData, updatedAt: new Date() })\<close> on the rows with
  the id; returns the first updated row, \<^verbatim>\<open>undefined\<close> when no row has the id.
\<close>

definition updatePerson :: "jsnum \<Rightarrow> obj \<Rightarrow> world \<Rightarrow> (string + person option) \<times> world" where
  "updatePerson i personData w =
     (case failing w (DbUpdatePerson i) of
        Some m \<Rightarrow> (Inl m, w)
      | None \<Rightarrow>
          (case i of
             JOtherNum \<Rightarrow> (Inl badId, w)
           | JInt n \<Rightarrow>
               (let v = personData(''updatedAt'' \<mapsto> JDate (clock w))
                in if illTyped v then (Inl badValue, w)
                   else (Inr (map_option (setColumns v) (find (\<lambda>p. p_id p = n) (people w))),
                         w\<lparr>people := map (\<lambda>p. if p_id p = n then setColumns v p else p)
                                         (people w)\<rparr>))))"

text \<open>
  \<^verbatim>\<open>createPerson\<close>: inserts one row. The id comes from the table's sequence; the columns
  that the values leave out take their defaults (no QR-code url, the time of the insert).
\<close>

definition createPerson :: "insertPerson \<Rightarrow> string \<Rightarrow> world \<Rightarrow> (string + person) \<times> world" where
  "createPerson d pub w =
     (case failing w DbCreatePerson of
        Some m \<Rightarrow> (Inl m, w)
      | None \<Rightarrow>
          (let p = \<lparr>p_id = nextPersonId w, publicId = pub, fullName = in_fullName d,
                    birthDate = in_birthDate d, passportNumber = in_passportNumber d,
                    expirationDate = in_expirationDate d, p_notes = in_notes d,
                    groupId = in_groupId d, status = in_status d,
                    photoUrl = Some (in_photoUrl d), qrCodeUrl = None,
                    createdBy = in_createdBy d, createdAt = clock w, updatedAt = clock w\<rparr>
           in (Inr p, w\<lparr>people := people w @ [p], nextPersonId := nextPersonId w + 1\<rparr>)))"

subsection \<open>storage.ts: groups\<close>

text \<open>
  \<^verbatim>\<open>getGroup\<close>: the first row with the id; an error whose message includes "endpoint has
  been disabled" gives \<^verbatim>\<open>undefined\<close>, any other error is rethrown.
\<close>

definition getGroup :: "jsnum \<Rightarrow> world \<Rightarrow> (string + group option) \<times> world" where
  "getGroup i w =
     (case (case failing w (DbGetGroup i) of
              Some m \<Rightarrow> Inl m
            | None \<Rightarrow>
                (case i of
                   JOtherNum \<Rightarrow> Inl badId
                 | JInt n \<Rightarrow> Inr (find (\<lambda>g. g_id g = n) (groups w)))) of
        Inl m \<Rightarrow> if includes_str m ''endpoint has been disabled'' then (Inr None, w) else (Inl m, w)
      | Inr g \<Rightarrow> (Inr g, w))"

text \<open>\<^verbatim>\<open>deleteGroup\<close>: removes the rows of \<^verbatim>\<open>groups\<close> with the id, and nothing else.\<close>

definition deleteGroup :: "jsnum \<Rightarrow> world \<Rightarrow> (string + unit) \<times> world" where
  "deleteGroup i w =
     (case failing w (DbDeleteGroup i) of
        Some m \<Rightarrow> (Inl m, w)
      | None \<Rightarrow>
          (case i of
             JOtherNum \<Rightarrow> (Inl badId, w)
           | JInt n \<Rightarrow> (Inr (), w\<lparr>groups := filter (\<lambda>g. g_id g \<noteq> n) (groups w)\<rparr>)))"

subsection \<open>storage.ts: users\<close>

text \<open>
  A property of the input that may be left out (\<^verbatim>\<open>undefined\<close>): an insert gives the
  column its default, a \<^verbatim>\<open>set\<close> skips it.
\<close>

datatype 'a field = Absent | Given 'a

text \<open>
  Modelled from the spec: the type \<^verbatim>\<open>UpsertUser\<close> of \<^verbatim>\<open>@shared/schema\<close> is not among
  the sources. It has the id and the profile attributes of a user; \<^verbatim>\<open>upsertUser\<close> adds
  the two optional flags.
\<close>

record upsertInput =
  in_id :: string
  in_email :: "string option field"
  in_firstName :: "string option field"
  in_lastName :: "string option field"
  in_profileImageUrl :: "string option field"
  in_isMainAdmin :: "bool option"
  in_isActive :: "bool option"

definition orDefault :: "'a option field \<Rightarrow> 'a option" where
  "orDefault f = (case f of Absent \<Rightarrow> None | Given x \<Rightarrow> x)"

definition orKeep :: "'a field \<Rightarrow> 'a \<Rightarrow> 'a" where
  "orKeep f old = (case f of Absent \<Rightarrow> old | Given x \<Rightarrow> x)"

text \<open>
  \<^verbatim>\<open>upsertUser\<close>: an insert with \<^verbatim>\<open>isMainAdmin ?? false\<close> and \<^verbatim>\<open>isActive ?? true\<close>;
  when a row with the id exists (\<^verbatim>\<open>onConflictDoUpdate\<close> on \<^verbatim>\<open>users.id\<close>), that row gets
  the \<^verbatim>\<open>set\<close> of the conflict clause instead.
\<close>

definition upsertUser :: "upsertInput \<Rightarrow> world \<Rightarrow> (string + user) \<times> world" where
  "upsertUser d w =
     (case failing w (DbUpsertUser (in_id d)) of
        Some m \<Rightarrow> (Inl m, w)
      | None \<Rightarrow>
          (case find (\<lambda>u. u_id u = in_id d) (users w) of
             Some old \<Rightarrow>
               (let upd = (\<lambda>u. u\<lparr>email := orKeep (in_email d) (email u),
                                 firstName := orKeep (in_firstName d) (firstName u),
                                 lastName := orKeep (in_lastName d) (lastName u),
                                 profileImageUrl :=
                                   orKeep (in_profileImageUrl d) (profileImageUrl u),
                                 u_updatedAt := clock w\<rparr>)
                in (Inr (upd old),
                    w\<lparr>users := map (\<lambda>u. if u_id u = in_id d then upd u else u) (users w)\<rparr>))
           | None \<Rightarrow>
               (let u = \<lparr>u_id = in_id d, email = orDefault (in_email d),
                         firstName = orDefault (in_firstName d),
                         lastName = orDefault (in_lastName d),
                         profileImageUrl = orDefault (in_profileImageUrl d),
                         isMainAdmin = (case in_isMainAdmin d of None \<Rightarrow> False | Some b \<Rightarrow> b),
                         isActive = (case in_isActive d of None \<Rightarrow> True | Some b \<Rightarrow> b),
                         u_createdAt = clock w, u_updatedAt = clock w\<rparr>
                in (Inr u, w\<lparr>users := users w @ [u]\<rparr>))))"

subsection \<open>storage.ts: reading the activity log\<close>

record activityLogWithUser = activityLog +
  performedByUser :: "user option"

text \<open>
  \<^verbatim>\<open>leftJoin(users, eq(activityLogs.performedBy, users.id))\<close>: every entry with each user
  whose id is the performer, and with no user (\<^verbatim>\<open>null\<close>) when there is none.
\<close>

definition leftJoinUsers :: "activityLog list \<Rightarrow> user list \<Rightarrow> (activityLog \<times> user option) list" where
  "leftJoinUsers ls us =
     concat (map (\<lambda>l. case filter (\<lambda>u. u_id u = performedBy l) us of
                         [] \<Rightarrow> [(l, None)]
                       | m # ms \<Rightarrow> map (\<lambda>u. (l, Some u)) (m # ms)) ls)"

text \<open>\<^verbatim>\<open>{ ...row.log, performedByUser: row.user || undefined }\<close>\<close>

definition withUser :: "activityLog \<times> user option \<Rightarrow> activityLogWithUser" where
  "withUser r =
     \<lparr>action = action (fst r), entityType = entityType (fst r), entityId = entityId (fst r),
      performedBy = performedBy (fst r), details = details (fst r),
      timestamp = timestamp (fst r), performedByUser = snd r\<rparr>"

text \<open>
  \<^verbatim>\<open>getAllActivityLogs\<close>: the joined rows, newest first by \<open>timestamp\<close>, each as one
  object.
\<close>

definition getAllActivityLogs :: "world \<Rightarrow> (string + activityLogWithUser list) \<times> world" where
  "getAllActivityLogs w =
     (case failing w DbGetAllActivityLogs of
        Some m \<Rightarrow> (Inl m, w)
      | None \<Rightarrow>
          (Inr (map withUser
                  (rev (sort_key (\<lambda>r. timestamp (fst r))
                          (leftJoinUsers (activityLogs w) (users w))))), w))"

subsection \<open>routes.ts: requests and responses\<close>

text \<open>
  What a handler reads of a request: the identity \<^verbatim>\<open>req.user.claims.sub\<close>, the route
  parameter \<^verbatim>\<open>req.params.id\<close>, the text fields of the form \<^verbatim>\<open>req.body\<close>, the stored
  name \<^verbatim>\<open>req.file.filename\<close> of an uploaded photo, \<^verbatim>\<open>req.protocol\<close> and
  \<^verbatim>\<open>req.hostname\<close>.
\<close>

record request =
  userId :: string
  paramsId :: string
  body :: "string \<rightharpoonup> string"
  reqFile :: "string option"
  protocol :: string
  hostname :: string

datatype payload = Message string | PersonJson "person option" | Success

record response =
  code :: nat
  json :: payload

text \<open>\<^verbatim>\<open>n.toString()\<close> for a number.\<close>

definition numToString :: "jsnum \<Rightarrow> string" where
  "numToString i = (case i of JInt n \<Rightarrow> toString n | JOtherNum \<Rightarrow> ''NaN'')"

text \<open>\<^verbatim>\<open>error.message || fallback\<close>\<close>

definition messageOr :: "string \<Rightarrow> string \<Rightarrow> string" where
  "messageOr m fallback = (if m = [] then fallback else m)"

subsection \<open>routes.ts: generateQRCode\<close>

text \<open>
  \<^verbatim>\<open>generateQRCode\<close>: renders the public url into the file \<^verbatim>\<open>qr-<publicId>.png\<close> and
  returns the file's url; an error of the renderer is caught and printed, and the result
  is the empty string. The state keeps which files exist.
\<close>

definition generateQRCode :: "env \<Rightarrow> string \<Rightarrow> string \<Rightarrow> string \<Rightarrow> world \<Rightarrow> string \<times> world" where
  "generateQRCode e pub proto host w =
     (let qrCodePath = qrCodesPath e (''qr-'' @ pub @ ''.png'')
      in case failing w (QrToFile qrCodePath) of
           Some m \<Rightarrow> ([], w\<lparr>console := console w @ [''Error generating QR code: '' @ m]\<rparr>)
         | None \<Rightarrow>
             (''/uploads/qrcodes/qr-'' @ pub @ ''.png'',
              w\<lparr>files := (if qrCodePath \<in> set (files w) then files w
                           else files w @ [qrCodePath])\<rparr>))"

subsection \<open>routes.ts: POST /api/people\<close>

text \<open>The object \<^verbatim>\<open>userInput\<close>; a form field that is missing is a key that is missing.\<close>

definition userInput :: "env \<Rightarrow> request \<Rightarrow> obj" where
  "userInput e req =
     ((map_option JStr \<circ> (body req)) |` {''fullName'', ''birthDate'', ''passportNumber'',
                                          ''expirationDate''})
       (''notes'' \<mapsto> JStr (case body req ''notes'' of None \<Rightarrow> [] | Some s \<Rightarrow> s),
        ''groupId'' \<mapsto> JNumber (Number e (body req ''groupId'')),
        ''status'' \<mapsto> JBool (body req ''status'' = Some ''true''),
        ''photoUrl'' \<mapsto> JStr (case reqFile req of None \<Rightarrow> []
                                | Some f \<Rightarrow> ''/uploads/photos/'' @ f),
        ''createdBy'' \<mapsto> JStr (userId req))"

text \<open>
  The handler. \<open>pub\<close> is the result of \<^verbatim>\<open>generatePublicId()\<close>, the 32 hexadecimal
  digits of 16 random bytes. Every error is caught, printed and answered with status 400.
\<close>

definition failCreate :: "string \<Rightarrow> world \<Rightarrow> response \<times> world" where
  "failCreate m w =
     (\<lparr>code = 400, json = Message (messageOr m ''Failed to create person'')\<rparr>,
      w\<lparr>console := console w @ [''Error creating person: '' @ m]\<rparr>)"

definition postPerson :: "env \<Rightarrow> string \<Rightarrow> request \<Rightarrow> world \<Rightarrow> response \<times> world" where
  "postPerson e pub req w =
     (case parsePerson e (userInput e req) of
        Inl m \<Rightarrow> failCreate m w
      | Inr validated \<Rightarrow>
          (case createPerson validated pub w of
             (Inl m, w1) \<Rightarrow> failCreate m w1
           | (Inr person, w1) \<Rightarrow>
               (case generateQRCode e pub (protocol req) (hostname req) w1 of
                  (qrUrl, w2) \<Rightarrow>
                    (case (if qrUrl \<noteq> []
                           then updatePerson (JInt (p_id person))
                                  [''qrCodeUrl'' \<mapsto> JStr qrUrl] w2
                           else (Inr None, w2)) of
                       (Inl m, w3) \<Rightarrow> failCreate m w3
                     | (Inr r, w3) \<Rightarrow>
                         (let w4 = logActivity (PassportCreated (fullName person)) ''passport''
                                     (toString (p_id person)) (userId req)
                                     (Some [(''passportNumber'', JStr (passportNumber person))])
                                     w3
                          in case getPerson (JInt (p_id person)) w4 of
                               (Inl m, w5) \<Rightarrow> failCreate m w5
                             | (Inr updatedPerson, w5) \<Rightarrow>
                                 (\<lparr>code = 200, json = PersonJson updatedPerson\<rparr>, w5))))))"

subsection \<open>routes.ts: PUT /api/people/:id\<close>

text \<open>
  The object \<^verbatim>\<open>updateData\<close> after the seven \<^verbatim>\<open>delete\<close> statements: the form fields,
  \<^verbatim>\<open>groupId\<close> and \<^verbatim>\<open>status\<close> converted, \<^verbatim>\<open>photoUrl\<close> of an uploaded file, without the
  keys \<^verbatim>\<open>id\<close>, \<^verbatim>\<open>photo\<close>, \<^verbatim>\<open>publicId\<close>, \<^verbatim>\<open>qrCodeUrl\<close>, \<^verbatim>\<open>createdBy\<close>, \<^verbatim>\<open>createdAt\<close>
  and \<^verbatim>\<open>updatedAt\<close>.
\<close>

definition updateData :: "env \<Rightarrow> request \<Rightarrow> obj" where
  "updateData e req =
     (let d0 = (map_option JStr \<circ> (body req))
                 (''groupId'' \<mapsto> JNumber (Number e (body req ''groupId'')),
                  ''status'' \<mapsto> JBool (body req ''status'' = Some ''true''));
          d1 = (case reqFile req of
                  None \<Rightarrow> d0
                | Some f \<Rightarrow> d0(''photoUrl'' \<mapsto> JStr (''/uploads/photos/'' @ f)))
      in d1(''id'' := None, ''photo'' := None, ''publicId'' := None, ''qrCodeUrl'' := None,
            ''createdBy'' := None, ''createdAt'' := None, ''updatedAt'' := None))"

definition failUpdate :: "string \<Rightarrow> world \<Rightarrow> response \<times> world" where
  "failUpdate m w =
     (\<lparr>code = 400, json = Message (messageOr m ''Failed to update person'')\<rparr>,
      w\<lparr>console := console w @ [''Error updating person: '' @ m]\<rparr>)"

text \<open>
  The message of the \<^verbatim>\<open>TypeError\<close> that reading \<^verbatim>\<open>person.fullName\<close> throws when
  \<^verbatim>\<open>person\<close> is \<^verbatim>\<open>undefined\<close>.
\<close>

definition undefinedFullName :: string where
  "undefinedFullName = ''Cannot read properties of undefined (reading 'fullName')''"

text \<open>
  The handler. The row that \<^verbatim>\<open>updatePerson\<close> returns is used without a test: when no
  row has the id, building the log message throws, and the error is answered like every
  other one, with status 400.
\<close>

definition putPerson :: "env \<Rightarrow> request \<Rightarrow> world \<Rightarrow> response \<times> world" where
  "putPerson e req w =
     (case updatePerson (Number e (Some (paramsId req))) (updateData e req) w of
        (Inl m, w1) \<Rightarrow> failUpdate m w1
      | (Inr None, w1) \<Rightarrow> failUpdate undefinedFullName w1
      | (Inr (Some person), w1) \<Rightarrow>
          (let w2 = logActivity (PassportUpdated (fullName person)) ''passport''
                      (toString (p_id person)) (userId req)
                      (Some [(''passportNumber'', JStr (passportNumber person))]) w1
           in (\<lparr>code = 200, json = PersonJson (Some person)\<rparr>, w2)))"

subsection \<open>routes.ts: DELETE /api/people/:id\<close>




subsection \<open>routes.ts: DELETE /api/groups/:id\<close>

definition failDeleteGroup :: "string \<Rightarrow> world \<Rightarrow> response \<times> world" where
  "failDeleteGroup m w =
     (\<lparr>code = 500, json = Message ''Failed to delete group''\<rparr>,
      w\<lparr>console := console w @ [''Error deleting group: '' @ m]\<rparr>)"

definition deleteGroupHandler :: "env \<Rightarrow> request \<Rightarrow> world \<Rightarrow> response \<times> world" where
  "deleteGroupHandler e req w =
     (let gid = Number e (Some (paramsId req))
      in case getGroup gid w of
           (Inl m, w1) \<Rightarrow> failDeleteGroup m w1
         | (Inr None, w1) \<Rightarrow> (\<lparr>code = 404, json = Message ''Group not found''\<rparr>, w1)
         | (Inr (Some g), w1) \<Rightarrow>
             (case deleteGroup gid w1 of
                (Inl m, w2) \<Rightarrow> failDeleteGroup m w2
              | (Inr u, w2) \<Rightarrow>
                  (\<lparr>code = 200, json = Success\<rparr>,
                   logActivity (GroupDeleted (g_name g)) ''group'' (numToString gid)
                     (userId req) None w2)))"

subsection \<open>Vocabulary of the statements\<close>

text \<open>
  The expiration date of a row, set to the start of its day, is strictly before the start of
  the day of \<open>now\<close>.
\<close>

definition pastExpiry :: "env \<Rightarrow> int \<Rightarrow> person \<Rightarrow> bool" where
  "pastExpiry e now p =
     (case parseDate e (expirationDate p) of
        None \<Rightarrow> False
      | Some t \<Rightarrow> startOfDay e t < startOfDay e now)"

text \<open>
  Calendar days. A day is counted from 1 January 1970; local time is UTC plus a fixed offset
  \<open>off\<close>, in milliseconds. \<^verbatim>\<open>new Date(s)\<close> on a date-only string \<^verbatim>\<open>YYYY-MM-DD\<close> is the
  midnight of that day in UTC; \<^verbatim>\<open>setHours(0, 0, 0, 0)\<close> gives the local midnight before an
  instant.
\<close>

definition utcMidnight :: "int \<Rightarrow> int" where
  "utcMidnight d = d * 86400000"

definition localMidnight :: "int \<Rightarrow> int \<Rightarrow> int" where
  "localMidnight off t = t - (t + off) mod 86400000"

definition localDay :: "int \<Rightarrow> int \<Rightarrow> int" where
  "localDay off t = (t + off) div 86400000"

text \<open>
  What the job's test comes to for a row whose expiration date is a date-only string of
  the day \<open>day s\<close>: at or east of UTC the expiration day is strictly before today, west of UTC
  it is today or earlier.
\<close>

definition due :: "int \<Rightarrow> (string \<Rightarrow> int option) \<Rightarrow> int \<Rightarrow> person \<Rightarrow> bool" where
  "due off day now p =
     (status p \<and>
      (case day (expirationDate p) of
         None \<Rightarrow> False
       | Some d \<Rightarrow> if 0 \<le> off then d < localDay off now else d \<le> localDay off now))"


text \<open>A row after the job has deactivated it at time \<open>t\<close>.\<close>

definition deactivated :: "int \<Rightarrow> person \<Rightarrow> person" where
  "deactivated t p = p\<lparr>status := False, updatedAt := t\<rparr>"

text \<open>The log entry that the job writes at time \<open>t\<close> for a row.\<close>

definition autoLog :: "int \<Rightarrow> person \<Rightarrow> activityLog" where
  "autoLog t p =
     \<lparr>action = PassportAutoDeactivated, entityType = ''passport'', entityId = toString (p_id p),
      performedBy = ''system'', details = Some (expiryDetails p), timestamp = t\<rparr>"

text \<open>One round of the loop body on an expired row whose update succeeds.\<close>

definition afterRow :: "person \<Rightarrow> world \<Rightarrow> world" where
  "afterRow p w =
     (let w1 = w\<lparr>people := map (\<lambda>q. if p_id q = p_id p then deactivated (clock w) q else q)
                              (people w)\<rparr>;
          w2 = logActivity PassportAutoDeactivated ''passport'' (toString (p_id p)) ''system''
                 (Some (expiryDetails p)) w1
      in w2\<lparr>console := console w2 @
              [''Marked passport '' @ toString (p_id p) @ '' ('' @ fullName p @
               '') as expired'']\<rparr>)"


subsection \<open>Concrete inputs\<close>

text \<open>A validator for the concrete inputs: every field present and of its type.\<close>

definition strOf :: "obj \<Rightarrow> string \<Rightarrow> string option" where
  "strOf x k = (case x k of Some (JStr s) \<Rightarrow> Some s | _ \<Rightarrow> None)"

definition demoParse :: "obj \<Rightarrow> string + insertPerson" where
  "demoParse x =
     (case strOf x ''fullName'' of None \<Rightarrow> Inl ''Required'' | Some a \<Rightarrow>
      case strOf x ''birthDate'' of None \<Rightarrow> Inl ''Required'' | Some b \<Rightarrow>
      case strOf x ''passportNumber'' of None \<Rightarrow> Inl ''Required'' | Some c \<Rightarrow>
      case strOf x ''expirationDate'' of None \<Rightarrow> Inl ''Required'' | Some d \<Rightarrow>
      case strOf x ''notes'' of None \<Rightarrow> Inl ''Required'' | Some n \<Rightarrow>
      case strOf x ''photoUrl'' of None \<Rightarrow> Inl ''Required'' | Some ph \<Rightarrow>
      case strOf x ''createdBy'' of None \<Rightarrow> Inl ''Required'' | Some u \<Rightarrow>
      case x ''groupId'' of
        Some (JNumber (JInt g)) \<Rightarrow>
          (case x ''status'' of
             Some (JBool t) \<Rightarrow>
               Inr \<lparr>in_fullName = a, in_birthDate = b, in_passportNumber = c,
                    in_expirationDate = d, in_notes = n, in_groupId = g, in_status = t,
                    in_photoUrl = ph, in_createdBy = u\<rparr>
           | _ \<Rightarrow> Inl ''Expected boolean'')
      | _ \<Rightarrow> Inl ''Expected number'')"

text \<open>
  A server in UTC, three passports (two of them past their expiration date on the day of
  the clock, 14 November 2023), and the two asset files of the first passport.
\<close>

definition env0 :: env where
  "env0 =
     \<lparr>parseNumber = (\<lambda>s. if s = ''1'' then JInt 1 else if s = ''2'' then JInt 2
                         else if s = ''999'' then JInt 999 else JOtherNum),
      parseDate = (\<lambda>s. if s = ''2020-01-01'' then Some 1577836800000
                        else if s = ''2030-01-01'' then Some 1893456000000 else None),
      startOfDay = (\<lambda>t. t - t mod 86400000),
      cwdPath = (\<lambda>u. ''/app'' @ u),
      qrCodesPath = (\<lambda>f. ''/app/uploads/qrcodes/'' @ f),
      parsePerson = demoParse\<rparr>"

definition alice :: person where
  "alice =
     \<lparr>p_id = 1, publicId = ''a1'', fullName = ''Alice'', birthDate = ''1990-05-05'',
      passportNumber = ''P-1'', expirationDate = ''2020-01-01'', p_notes = [], groupId = 1,
      status = True, photoUrl = Some ''/uploads/photos/photo-1.png'',
      qrCodeUrl = Some ''/uploads/qrcodes/qr-a1.png'', createdBy = ''admin_user'',
      createdAt = 10, updatedAt = 10\<rparr>"

definition bob :: person where
  "bob =
     \<lparr>p_id = 2, publicId = ''b2'', fullName = ''Bob'', birthDate = ''1991-06-06'',
      passportNumber = ''P-2'', expirationDate = ''2020-01-01'', p_notes = [], groupId = 1,
      status = True, photoUrl = Some [], qrCodeUrl = None, createdBy = ''admin_user'',
      createdAt = 20, updatedAt = 20\<rparr>"

definition carol :: person where
  "carol =
     \<lparr>p_id = 3, publicId = ''c3'', fullName = ''Carol'', birthDate = ''1992-07-07'',
      passportNumber = ''P-3'', expirationDate = ''2030-01-01'', p_notes = [], groupId = 2,
      status = True, photoUrl = Some [], qrCodeUrl = None, createdBy = ''admin_user'',
      createdAt = 30, updatedAt = 30\<rparr>"

definition noFailure :: "call \<Rightarrow> string option" where
  "noFailure c = None"

definition failOn :: "call \<Rightarrow> string \<Rightarrow> call \<Rightarrow> string option" where
  "failOn c m c' = (if c' = c then Some m else None)"

definition world0 :: world where
  "world0 =
     \<lparr>users = [], groups = [], people = [alice, bob, carol], activityLogs = [],
      files = [''/app/uploads/photos/photo-1.png'', ''/app/uploads/qrcodes/qr-a1.png''],
      clock = 1700000000000, nextPersonId = 4, console = [], failing = noFailure\<rparr>"

text \<open>The same world with one failing statement.\<close>

definition world_mark_fails :: world where
  "world_mark_fails = world0\<lparr>failing := failOn (DbMarkPersonExpired (JInt 2)) ''connection lost''\<rparr>"

definition world_log_fails :: world where
  "world_log_fails = world0\<lparr>failing := failOn (DbCreateActivityLog ''2'') ''connection lost''\<rparr>"

text \<open>An update request for an id that no row has; its form also carries protected keys.\<close>

definition req_unknown :: request where
  "req_unknown =
     \<lparr>userId = ''admin_user'', paramsId = ''999'',
      body = [''fullName'' \<mapsto> ''Zed'', ''groupId'' \<mapsto> ''1'', ''status'' \<mapsto> ''true'',
              ''publicId'' \<mapsto> ''forged'', ''createdBy'' \<mapsto> ''mallory''],
      reqFile = None, protocol = ''https'', hostname = ''vault.example''\<rparr>"

text \<open>Two groups, a user, and requests to delete group 1 and to sign the user in again.\<close>

definition staff :: group where
  "staff = \<lparr>g_id = 1, g_name = ''Staff'', g_createdBy = ''admin_user'', g_createdAt = 1,
            g_updatedAt = 1\<rparr>"

definition guests :: group where
  "guests = \<lparr>g_id = 2, g_name = ''Guests'', g_createdBy = ''admin_user'', g_createdAt = 2,
             g_updatedAt = 2\<rparr>"

definition dave :: user where
  "dave = \<lparr>u_id = ''42'', email = Some ''dave@example.com'', firstName = Some ''Dave'',
           lastName = None, profileImageUrl = None, isMainAdmin = False, isActive = True,
           u_createdAt = 3, u_updatedAt = 3\<rparr>"

definition world_groups :: world where
  "world_groups = world0\<lparr>users := [dave], groups := [staff, guests]\<rparr>"

definition req_group :: request where
  "req_group = \<lparr>userId = ''admin_user'', paramsId = ''1'', body = Map.empty, reqFile = None,
                 protocol = ''https'', hostname = ''vault.example''\<rparr>"

definition dave_again :: upsertInput where
  "dave_again = \<lparr>in_id = ''42'', in_email = Given (Some ''d@example.org''),
                  in_firstName = Given None, in_lastName = Given (Some ''Doe''),
                  in_profileImageUrl = Absent, in_isMainAdmin = Some True,
                  in_isActive = Some False\<rparr>"

text \<open>A log with one entry of the job, one of the user and one of the built-in identity.\<close>

definition log_system :: activityLog where
  "log_system = autoLog 5 alice"

definition log_dave :: activityLog where
  "log_dave = \<lparr>action = PassportUpdated ''Bob'', entityType = ''passport'', entityId = ''2'',
               performedBy = ''42'', details = None, timestamp = 9\<rparr>"

definition log_bypass :: activityLog where
  "log_bypass = \<lparr>action = GroupDeleted ''Staff'', entityType = ''group'', entityId = ''1'',
                 performedBy = ''admin_user'', details = None, timestamp = 7\<rparr>"

definition world_logs :: world where
  "world_logs = world0\<lparr>users := [dave], activityLogs := [log_system, log_dave, log_bypass]\<rparr>"




definition world_qr_fails :: world where
  "world_qr_fails =
     world0\<lparr>failing := failOn (QrToFile ''/app/uploads/qrcodes/qr-d4.png'') ''disk full''\<rparr>"

definition req_create :: request where
  "req_create =
     \<lparr>userId = ''admin_user'', paramsId = [],
      body = [''fullName'' \<mapsto> ''Dora'', ''birthDate'' \<mapsto> ''1993-08-08'',
              ''passportNumber'' \<mapsto> ''P-4'', ''expirationDate'' \<mapsto> ''2030-01-01'',
              ''groupId'' \<mapsto> ''2'', ''status'' \<mapsto> ''true''],
      reqFile = None, protocol = ''https'', hostname = ''vault.example''\<rparr>"

definition dora :: person where
  "dora =
     \<lparr>p_id = 4, publicId = ''d4'', fullName = ''Dora'', birthDate = ''1993-08-08'',
      passportNumber = ''P-4'', expirationDate = ''2030-01-01'', p_notes = [], groupId = 2,
      status = True, photoUrl = Some [], qrCodeUrl = None, createdBy = ''admin_user'',
      createdAt = 1700000000000, updatedAt = 1700000000000\<rparr>"

text \<open>
  A server five hours west of UTC and a passport whose expiration day, 14 November 2023,
  is the local day of the clock.
\<close>

definition demoDay :: "string \<Rightarrow> int option" where
  "demoDay s =
     (if s = ''2020-01-01'' then Some 18262
      else if s = ''2023-11-14'' then Some 19675
      else if s = ''2030-01-01'' then Some 21915 else None)"

definition env_ny :: env where
  "env_ny = env0\<lparr>parseDate := (\<lambda>s. map_option utcMidnight (demoDay s)),
                  startOfDay := localMidnight (- 18000000)\<rparr>"

definition erin :: person where
  "erin =
     \<lparr>p_id = 5, publicId = ''e5'', fullName = ''Erin'', birthDate = ''1994-09-09'',
      passportNumber = ''P-5'', expirationDate = ''2023-11-14'', p_notes = [], groupId = 2,
      status = True, photoUrl = Some [], qrCodeUrl = None, createdBy = ''admin_user'',
      createdAt = 40, updatedAt = 40\<rparr>"

definition world_ny :: world where
  "world_ny = world0\<lparr>people := [erin, carol]\<rparr>"


section \<open>Properties\<close>

subsection \<open>The expiration job\<close>

lemma markPersonExpired_ok:
  "failing w (DbMarkPersonExpired (JInt n)) = None \<Longrightarrow>
   markPersonExpired (JInt n) w =
     (Inr (map_option (deactivated (clock w)) (find (\<lambda>p. p_id p = n) (people w))),
      w\<lparr>people := map (\<lambda>p. if p_id p = n then deactivated (clock w) p else p) (people w)\<rparr>)"
  by (simp add: markPersonExpired_def deactivated_def [abs_def])

lemma markPersonExpired_fail:
  "failing w (DbMarkPersonExpired i) = Some m \<Longrightarrow> markPersonExpired i w = (Inl m, w)"
  by (simp add: markPersonExpired_def)

lemma logActivity_frame:
  "people (logActivity a t i u d w) = people w"
  "clock (logActivity a t i u d w) = clock w"
  "failing (logActivity a t i u d w) = failing w"
  "users (logActivity a t i u d w) = users w"
  "groups (logActivity a t i u d w) = groups w"
  "files (logActivity a t i u d w) = files w"
  "nextPersonId (logActivity a t i u d w) = nextPersonId w"
  by (simp_all add: logActivity_def createActivityLog_def Let_def split: option.splits)

lemma logActivity_logs:
  "activityLogs (logActivity a t i u d w) =
     (case failing w (DbCreateActivityLog i) of
        Some m \<Rightarrow> activityLogs w
      | None \<Rightarrow> activityLogs w @ [\<lparr>action = a, entityType = t, entityId = i, performedBy = u,
                                   details = d, timestamp = clock w\<rparr>])"
  by (simp add: logActivity_def createActivityLog_def Let_def split: option.splits)

lemma afterRow_fields:
  "people (afterRow p w) =
     map (\<lambda>q. if p_id q = p_id p then deactivated (clock w) q else q) (people w)"
  "clock (afterRow p w) = clock w"
  "failing (afterRow p w) = failing w"
  "activityLogs (afterRow p w) =
     (case failing w (DbCreateActivityLog (toString (p_id p))) of
        Some m \<Rightarrow> activityLogs w
      | None \<Rightarrow> activityLogs w @ [autoLog (clock w) p])"
  by (simp_all add: afterRow_def Let_def logActivity_frame logActivity_logs autoLog_def
      split: option.splits)

lemma expireLoop_step:
  "isExpired e today p \<Longrightarrow> failing w (DbMarkPersonExpired (JInt (p_id p))) = None \<Longrightarrow>
   expireLoop e today (p # ps) w = expireLoop e today ps (afterRow p w)"
  by (simp add: markPersonExpired_ok afterRow_def Let_def)

lemma expireLoop_abort:
  "isExpired e today p \<Longrightarrow> failing w (DbMarkPersonExpired (JInt (p_id p))) = Some m \<Longrightarrow>
   expireLoop e today (p # ps) w = (Inl m, w)"
  by (simp add: markPersonExpired_fail)

lemma deactivate_twice:
  "map (\<lambda>q. if p_id q \<in> A then deactivated t q else q)
     (map (\<lambda>q. if p_id q = n then deactivated t q else q) xs) =
   map (\<lambda>q. if p_id q \<in> insert n A then deactivated t q else q) xs"
  by (auto simp: deactivated_def)

lemma expireLoop_people:
  assumes "\<forall>i. failing w (DbMarkPersonExpired i) = None"
  shows "fst (expireLoop e today ps w) = Inr () \<and>
         people (snd (expireLoop e today ps w)) =
           map (\<lambda>q. if p_id q \<in> p_id ` {p \<in> set ps. isExpired e today p}
                     then deactivated (clock w) q else q) (people w)"
  using assms
proof (induction ps arbitrary: w)
  case Nil
  show ?case by (simp add: map_idI)
next
  case (Cons p ps)
  show ?case
  proof (cases "isExpired e today p")
    case False
    have "{x \<in> set (p # ps). isExpired e today x} = {x \<in> set ps. isExpired e today x}"
      using False by auto
    then show ?thesis using False Cons.IH [of w] Cons.prems by simp
  next
    case True
    have step: "expireLoop e today (p # ps) w = expireLoop e today ps (afterRow p w)"
      by (rule expireLoop_step [OF True]) (simp add: Cons.prems)
    have f3: "\<forall>i. failing (afterRow p w) (DbMarkPersonExpired i) = None"
      using Cons.prems by (simp add: afterRow_fields)
    have S: "{x \<in> set (p # ps). isExpired e today x} =
             insert p {x \<in> set ps. isExpired e today x}"
      using True by auto
    from Cons.IH [OF f3] show ?thesis
      unfolding step S by (simp only: afterRow_fields deactivate_twice image_insert simp_thms)
  qed
qed

lemma expireLoop_logs:
  assumes "\<forall>i. failing w (DbMarkPersonExpired i) = None"
    and "\<forall>s. failing w (DbCreateActivityLog s) = None"
  shows "activityLogs (snd (expireLoop e today ps w)) =
           activityLogs w @ map (autoLog (clock w)) (filter (isExpired e today) ps)"
  using assms
proof (induction ps arbitrary: w)
  case Nil
  show ?case by simp
next
  case (Cons p ps)
  show ?case
  proof (cases "isExpired e today p")
    case False
    then show ?thesis using Cons.IH [of w] Cons.prems by simp
  next
    case True
    have step: "expireLoop e today (p # ps) w = expireLoop e today ps (afterRow p w)"
      by (rule expireLoop_step [OF True]) (simp add: Cons.prems)
    have f3: "\<forall>i. failing (afterRow p w) (DbMarkPersonExpired i) = None"
      "\<forall>s. failing (afterRow p w) (DbCreateActivityLog s) = None"
      using Cons.prems by (simp_all add: afterRow_fields)
    have l3: "activityLogs (afterRow p w) = activityLogs w @ [autoLog (clock w) p]"
      using Cons.prems(2) by (simp add: afterRow_fields)
    show ?thesis
      unfolding step using Cons.IH [OF f3] True by (simp add: l3 afterRow_fields(2))
  qed
qed

lemma expireLoop_none:
  "\<forall>p \<in> set ps. \<not> isExpired e today p \<Longrightarrow> expireLoop e today ps w = (Inr (), w)"
  by (induction ps) simp_all

lemma isExpired_deactivated: "\<not> isExpired e today (deactivated t p)"
  by (simp add: isExpired_def deactivated_def)

lemma isExpired_iff:
  "isExpired e (startOfDay e now) p \<longleftrightarrow> status p \<and> pastExpiry e now p"
  by (simp add: isExpired_def pastExpiry_def)

lemma by_id_is_by_test:
  assumes "distinct (map p_id xs)"
  shows "map (\<lambda>q. if p_id q \<in> p_id ` {p \<in> set xs. P p} then f q else q) xs =
         map (\<lambda>q. if P q then f q else q) xs"
proof (rule map_cong [OF refl])
  fix q assume q: "q \<in> set xs"
  have "inj_on p_id (set xs)" using assms by (simp add: distinct_map)
  then have "p_id q \<in> p_id ` {p \<in> set xs. P p} \<longleftrightarrow> P q"
    using q by (auto simp: inj_on_def)
  then show "(if p_id q \<in> p_id ` {p \<in> set xs. P p} then f q else q) = (if P q then f q else q)"
    by simp
qed

lemma getAllPeople_ok:
  "failing w DbGetAllPeople = None \<Longrightarrow>
   getAllPeople w = (Inr (rev (sort_key createdAt (people w))), w)"
  by (simp add: getAllPeople_def)

lemma getAllPeople_world: "snd (getAllPeople w) = w"
  by (simp add: getAllPeople_def split: option.splits)

lemma getAllPeople_rows:
  "fst (getAllPeople w) = Inr ps \<Longrightarrow> set ps \<subseteq> set (people w)"
  by (auto simp: getAllPeople_def split: option.splits if_splits)

text \<open>The job when the rows could be loaded.\<close>

lemma expirationCheck_loaded:
  assumes "failing w DbGetAllPeople = None"
  shows "expirationCheck e w =
      (case expireLoop e (startOfDay e (clock w)) (rev (sort_key createdAt (people w)))
              (w\<lparr>console := console w @ [''Running expiration check...'']\<rparr>) of
         (Inl m, w2) \<Rightarrow> (Inl m, w2\<lparr>console := console w2 @ [''Error in expiration cron: '' @ m]\<rparr>)
       | (Inr u, w2) \<Rightarrow> (Inr u, w2))"
  using assms by (simp add: expirationCheck_def Let_def getAllPeople_ok)

lemma expirationCheck_people:
  assumes "failing w DbGetAllPeople = None"
    and "\<forall>i. failing w (DbMarkPersonExpired i) = None"
  shows "fst (expirationCheck e w) = Inr () \<and>
         people (snd (expirationCheck e w)) =
           map (\<lambda>q. if p_id q \<in> p_id ` {p \<in> set (people w). isExpired e (startOfDay e (clock w)) p}
                     then deactivated (clock w) q else q) (people w)"
proof -
  define w1 where "w1 = w\<lparr>console := console w @ [''Running expiration check...'']\<rparr>"
  define ps where "ps = rev (sort_key createdAt (people w))"
  have f1: "\<forall>i. failing w1 (DbMarkPersonExpired i) = None"
    using assms(2) by (simp add: w1_def)
  have sps: "set ps = set (people w)" by (simp add: ps_def)
  from expireLoop_people [OF f1, of e "startOfDay e (clock w)" ps]
  have L: "fst (expireLoop e (startOfDay e (clock w)) ps w1) = Inr ()"
    "people (snd (expireLoop e (startOfDay e (clock w)) ps w1)) =
       map (\<lambda>q. if p_id q \<in> p_id ` {p \<in> set (people w). isExpired e (startOfDay e (clock w)) p}
                 then deactivated (clock w) q else q) (people w)"
    by (simp_all add: sps w1_def)
  obtain w2 where R: "expireLoop e (startOfDay e (clock w)) ps w1 = (Inr (), w2)"
    using L(1) by (cases "expireLoop e (startOfDay e (clock w)) ps w1") auto
  show ?thesis
    using L(2) unfolding expirationCheck_loaded [OF assms(1)] ps_def [symmetric]
      w1_def [symmetric] R by simp
qed

lemma expirationCheck_logs:
  assumes "failing w DbGetAllPeople = None"
    and "\<forall>i. failing w (DbMarkPersonExpired i) = None"
    and "\<forall>s. failing w (DbCreateActivityLog s) = None"
  shows "activityLogs (snd (expirationCheck e w)) =
           activityLogs w @
           map (autoLog (clock w))
             (filter (isExpired e (startOfDay e (clock w))) (rev (sort_key createdAt (people w))))"
proof -
  define w1 where "w1 = w\<lparr>console := console w @ [''Running expiration check...'']\<rparr>"
  define ps where "ps = rev (sort_key createdAt (people w))"
  have f1: "\<forall>i. failing w1 (DbMarkPersonExpired i) = None"
    "\<forall>s. failing w1 (DbCreateActivityLog s) = None"
    using assms(2,3) by (simp_all add: w1_def)
  have ok: "fst (expireLoop e (startOfDay e (clock w)) ps w1) = Inr ()"
    using expireLoop_people [OF f1(1)] by blast
  obtain w2 where R: "expireLoop e (startOfDay e (clock w)) ps w1 = (Inr (), w2)"
    using ok by (cases "expireLoop e (startOfDay e (clock w)) ps w1") auto
  have "activityLogs w2 =
      activityLogs w @ map (autoLog (clock w)) (filter (isExpired e (startOfDay e (clock w))) ps)"
    using expireLoop_logs [OF f1, of e "startOfDay e (clock w)" ps] R by (simp add: w1_def)
  then show ?thesis
    unfolding expirationCheck_loaded [OF assms(1)] ps_def [symmetric] w1_def [symmetric] R
    by simp
qed

lemma localMidnight_eq: "localMidnight off t = localDay off t * 86400000 - off"
proof -
  have "t + off = (t + off) div 86400000 * 86400000 + (t + off) mod 86400000"
    by simp
  then show ?thesis unfolding localMidnight_def localDay_def by linarith
qed

lemma localMidnight_less:
  "localMidnight off s < localMidnight off t \<longleftrightarrow> localDay off s < localDay off t"
  by (simp add: localMidnight_eq)

lemma localDay_utcMidnight:
  "0 \<le> off \<Longrightarrow> off < 86400000 \<Longrightarrow> localDay off (utcMidnight d) = d"
  "- 86400000 \<le> off \<Longrightarrow> off < 0 \<Longrightarrow> localDay off (utcMidnight d) = d - 1"
proof -
  have split: "localDay off (utcMidnight d) = d + off div 86400000"
    by (simp add: localDay_def utcMidnight_def)
  show "0 \<le> off \<Longrightarrow> off < 86400000 \<Longrightarrow> localDay off (utcMidnight d) = d"
    by (simp add: split)
  show "- 86400000 \<le> off \<Longrightarrow> off < 0 \<Longrightarrow> localDay off (utcMidnight d) = d - 1"
  proof -
    assume a: "- 86400000 \<le> off" "off < 0"
    have "off div 86400000 = - 1"
      by (rule int_div_pos_eq [of off 86400000 "- 1" "off + 86400000"]) (use a in simp_all)
    then show ?thesis by (simp add: split)
  qed
qed

lemma pastExpiry_calendar:
  assumes "startOfDay e = localMidnight off"
    and "- 86400000 \<le> off" and "off < 86400000"
    and "parseDate e (expirationDate p) = map_option utcMidnight (day (expirationDate p))"
  shows "status p \<and> pastExpiry e now p \<longleftrightarrow> due off day now p"
proof (cases "day (expirationDate p)")
  case None
  then show ?thesis using assms(4) by (simp add: pastExpiry_def due_def)
next
  case (Some d)
  show ?thesis
  proof (cases "0 \<le> off")
    case True
    then show ?thesis using Some assms
      by (simp add: pastExpiry_def due_def localMidnight_less localDay_utcMidnight(1))
  next
    case False
    then have "off < 0" by simp
    then show ?thesis using Some assms
      by (auto simp: pastExpiry_def due_def localMidnight_less localDay_utcMidnight(2))
  qed
qed

lemma expirationCheck_rows:
  assumes "failing w DbGetAllPeople = None"
    and "\<forall>i. failing w (DbMarkPersonExpired i) = None"
    and "\<forall>s. failing w (DbCreateActivityLog s) = None"
    and "distinct (map p_id (people w))"
  shows "people (snd (expirationCheck e w)) =
           map (\<lambda>p. if status p \<and> pastExpiry e (clock w) p
                     then p\<lparr>status := False, updatedAt := clock w\<rparr> else p) (people w) \<and>
         activityLogs (snd (expirationCheck e w)) =
           activityLogs w @
           map (autoLog (clock w))
             (filter (\<lambda>p. status p \<and> pastExpiry e (clock w) p)
                (rev (sort_key createdAt (people w))))"
proof -
  have "people (snd (expirationCheck e w)) =
      map (\<lambda>q. if isExpired e (startOfDay e (clock w)) q then deactivated (clock w) q else q)
        (people w)"
    using expirationCheck_people [OF assms(1,2), of e] by_id_is_by_test [OF assms(4)] by simp
  then have P: "people (snd (expirationCheck e w)) =
      map (\<lambda>p. if status p \<and> pastExpiry e (clock w) p
                then p\<lparr>status := False, updatedAt := clock w\<rparr> else p) (people w)"
    by (simp add: deactivated_def isExpired_iff)
  have F: "isExpired e (startOfDay e (clock w)) = (\<lambda>p. status p \<and> pastExpiry e (clock w) p)"
    by (rule ext) (simp add: isExpired_iff)
  show ?thesis using P expirationCheck_logs [OF assms(1,2,3), of e]
    by (simp add: F)
qed

text \<open>
  Claim C2 against the code. Let every stored expiration date be a date-only string (or no
  date at all), let local time be UTC plus a fixed offset of less than a day, and let loading
  the rows, the status updates and the log writes not fail. Then one run deactivates exactly
  the active rows whose expiration day is strictly before today when the server is at or
  east of UTC, as the claim says; west of UTC it deactivates exactly the active rows whose
  expiration day is today or earlier, so a passport loses its status on its expiration day.
  The date is parsed as midnight in UTC and then set to the start of the local day, which
  west of UTC is the day before. For each deactivated row the run appends one log entry whose
  performer is "system" and whose details hold the row's full name and expiration date.
\<close>

theorem expirationCheck_calendar:
  assumes "failing w DbGetAllPeople = None"
    and "\<forall>i. failing w (DbMarkPersonExpired i) = None"
    and "\<forall>s. failing w (DbCreateActivityLog s) = None"
    and "distinct (map p_id (people w))"
    and "startOfDay e = localMidnight off"
    and "- 86400000 \<le> off" and "off < 86400000"
    and "\<forall>p \<in> set (people w).
           parseDate e (expirationDate p) = map_option utcMidnight (day (expirationDate p))"
  shows "people (snd (expirationCheck e w)) =
           map (\<lambda>p. if status p \<and>
                        (case day (expirationDate p) of
                           None \<Rightarrow> False
                         | Some d \<Rightarrow> if 0 \<le> off then d < localDay off (clock w)
                                     else d \<le> localDay off (clock w))
                     then p\<lparr>status := False, updatedAt := clock w\<rparr> else p) (people w) \<and>
         (\<exists>ls. activityLogs (snd (expirationCheck e w)) = activityLogs w @ ls \<and>
               mset ls =
                 image_mset
                   (\<lambda>p. \<lparr>action = PassportAutoDeactivated, entityType = ''passport'',
                          entityId = toString (p_id p), performedBy = ''system'',
                          details = Some [(''fullName'', JStr (fullName p)),
                                          (''expirationDate'', JStr (expirationDate p))],
                          timestamp = clock w\<rparr>)
                   (filter_mset (due off day (clock w)) (mset (people w))))"
proof -
  have C: "(status p \<and> pastExpiry e (clock w) p) = due off day (clock w) p"
    if "p \<in> set (people w)" for p
    using pastExpiry_calendar [OF assms(5,6,7), of p day "clock w"] assms(8) that by blast
  note R = expirationCheck_rows [OF assms(1-4), of e]
  have "map (\<lambda>p. if status p \<and> pastExpiry e (clock w) p
                  then p\<lparr>status := False, updatedAt := clock w\<rparr> else p) (people w) =
        map (\<lambda>p. if due off day (clock w) p
                  then p\<lparr>status := False, updatedAt := clock w\<rparr> else p) (people w)"
    by (rule map_cong [OF refl]) (simp add: C)
  with R have P: "people (snd (expirationCheck e w)) =
        map (\<lambda>p. if due off day (clock w) p
                  then p\<lparr>status := False, updatedAt := clock w\<rparr> else p) (people w)"
    by simp
  define ls where "ls = map (autoLog (clock w))
             (filter (\<lambda>p. status p \<and> pastExpiry e (clock w) p)
                (rev (sort_key createdAt (people w))))"
  have L: "activityLogs (snd (expirationCheck e w)) = activityLogs w @ ls"
    using R by (simp add: ls_def)
  have "filter_mset (\<lambda>p. status p \<and> pastExpiry e (clock w) p) (mset (people w)) =
        filter_mset (due off day (clock w)) (mset (people w))"
    by (rule filter_mset_cong [OF refl]) (simp add: C)
  moreover have "mset ls = image_mset (autoLog (clock w))
      (filter_mset (\<lambda>p. status p \<and> pastExpiry e (clock w) p) (mset (people w)))"
    by (simp add: ls_def)
  ultimately have M: "mset ls = image_mset (autoLog (clock w))
                   (filter_mset (due off day (clock w)) (mset (people w)))"
    by simp
  show ?thesis
    using P L M by (auto simp: due_def [abs_def] autoLog_def [abs_def] expiryDetails_def)
qed

theorem expirationCheck_calendar_witness:
  "failing world_ny DbGetAllPeople = None \<and>
   (\<forall>i. failing world_ny (DbMarkPersonExpired i) = None) \<and>
   (\<forall>s. failing world_ny (DbCreateActivityLog s) = None) \<and>
   distinct (map p_id (people world_ny)) \<and>
   startOfDay env_ny = localMidnight (- 18000000) \<and>
   map (\<lambda>p. parseDate env_ny (expirationDate p)) (people world_ny) =
     map (\<lambda>p. map_option utcMidnight (demoDay (expirationDate p))) (people world_ny) \<and>
   status erin \<and> demoDay (expirationDate erin) = Some 19675 \<and>
   localDay (- 18000000) (clock world_ny) = 19675 \<and>
   people (snd (expirationCheck env_ny world_ny)) =
     [erin\<lparr>status := False, updatedAt := 1700000000000\<rparr>, carol]"
proof -
  have h1: "failing world_ny DbGetAllPeople = None"
    and h2: "\<forall>i. failing world_ny (DbMarkPersonExpired i) = None"
    and h3: "\<forall>s. failing world_ny (DbCreateActivityLog s) = None"
    and h4: "distinct (map p_id (people world_ny))"
    and h5: "startOfDay env_ny = localMidnight (- 18000000)"
    and h6: "- 86400000 \<le> (- 18000000 :: int)" and h7: "(- 18000000 :: int) < 86400000"
    and h8: "\<forall>p \<in> set (people world_ny).
           parseDate env_ny (expirationDate p) = map_option utcMidnight (demoDay (expirationDate p))"
    by (simp_all add: world_ny_def world0_def noFailure_def env_ny_def erin_def carol_def)
  have facts: "status erin" "demoDay (expirationDate erin) = Some 19675"
    "localDay (- 18000000) (clock world_ny) = 19675"
    "map (\<lambda>p. parseDate env_ny (expirationDate p)) (people world_ny) =
     map (\<lambda>p. map_option utcMidnight (demoDay (expirationDate p))) (people world_ny)"
    by (simp_all add: erin_def demoDay_def localDay_def world_ny_def world0_def env_ny_def)
  from expirationCheck_calendar [OF h1 h2 h3 h4 h5 h6 h7 h8]
  have "people (snd (expirationCheck env_ny world_ny)) =
     [erin\<lparr>status := False, updatedAt := 1700000000000\<rparr>, carol]"
    by (simp add: world_ny_def world0_def erin_def carol_def demoDay_def localDay_def)
  with h1 h2 h3 h4 h5 facts show ?thesis by blast
qed

lemmas concrete_defs =
  world0_def env0_def alice_def bob_def carol_def noFailure_def failOn_def isExpired_def
  pastExpiry_def
  world_mark_fails_def world_log_fails_def

lemma expirationCheck_quiet:
  assumes "\<forall>p \<in> set (people w). \<not> isExpired e (startOfDay e (clock w)) p"
  shows "people (snd (expirationCheck e w)) = people w \<and>
         activityLogs (snd (expirationCheck e w)) = activityLogs w"
proof -
  define w1 where "w1 = w\<lparr>console := console w @ [''Running expiration check...'']\<rparr>"
  have E: "expirationCheck e w =
     (case getAllPeople w1 of
           (Inl m, w') \<Rightarrow> (Inl m, w'\<lparr>console := console w' @ [''Error in expiration cron: '' @ m]\<rparr>)
         | (Inr ps, w') \<Rightarrow>
             (let today = startOfDay e (clock w')
              in case expireLoop e today ps w' of
                   (Inl m, w2) \<Rightarrow>
                     (Inl m, w2\<lparr>console := console w2 @ [''Error in expiration cron: '' @ m]\<rparr>)
                 | (Inr u, w2) \<Rightarrow> (Inr u, w2)))"
    by (simp add: expirationCheck_def w1_def Let_def)
  obtain r where R: "getAllPeople w1 = (r, w1)"
    using getAllPeople_world [of w1] by (cases "getAllPeople w1") simp
  show ?thesis
  proof (cases r)
    case (Inl m)
    then show ?thesis unfolding E R by (simp add: w1_def)
  next
    case (Inr ps)
    then have "set ps \<subseteq> set (people w1)" using getAllPeople_rows [of w1 ps] R by simp
    then have "\<forall>p \<in> set ps. \<not> isExpired e (startOfDay e (clock w1)) p"
      using assms by (auto simp: w1_def)
    then have "expireLoop e (startOfDay e (clock w1)) ps w1 = (Inr (), w1)"
      by (rule expireLoop_none)
    then show ?thesis unfolding E R using Inr by (simp add: w1_def)
  qed
qed

text \<open>
  Claim C3. After a run that could load the rows and whose status updates did not fail, a
  second run on the same day, whatever fails in it, changes no row and writes no log entry.
\<close>

theorem expirationCheck_idempotent:
  assumes "failing w DbGetAllPeople = None"
    and "\<forall>i. failing w (DbMarkPersonExpired i) = None"
    and "startOfDay e t = startOfDay e (clock w)"
  shows "people (snd (expirationCheck e ((snd (expirationCheck e w))\<lparr>clock := t, failing := f\<rparr>))) =
           people (snd (expirationCheck e w)) \<and>
         activityLogs (snd (expirationCheck e ((snd (expirationCheck e w))\<lparr>clock := t, failing := f\<rparr>))) =
           activityLogs (snd (expirationCheck e w))"
proof -
  define w1 where "w1 = snd (expirationCheck e w)"
  define w1' where "w1' = w1\<lparr>clock := t, failing := f\<rparr>"
  have P: "people w1 =
      map (\<lambda>q. if p_id q \<in> p_id ` {p \<in> set (people w). isExpired e (startOfDay e (clock w)) p}
                then deactivated (clock w) q else q) (people w)"
    using expirationCheck_people [OF assms(1,2), of e] by (simp add: w1_def)
  have "\<not> isExpired e (startOfDay e (clock w)) r" if "r \<in> set (people w1)" for r
  proof -
    from that obtain q where q: "q \<in> set (people w)"
      and r: "r = (if p_id q \<in> p_id ` {p \<in> set (people w). isExpired e (startOfDay e (clock w)) p}
                   then deactivated (clock w) q else q)"
      unfolding P by auto
    show ?thesis
    proof (cases "p_id q \<in> p_id ` {p \<in> set (people w). isExpired e (startOfDay e (clock w)) p}")
      case True
      then show ?thesis using r by (simp add: isExpired_deactivated)
    next
      case False
      then have "\<not> isExpired e (startOfDay e (clock w)) q" using q by auto
      then show ?thesis using r False by simp
    qed
  qed
  then have "\<forall>p \<in> set (people w1'). \<not> isExpired e (startOfDay e (clock w1')) p"
    using assms(3) by (simp add: w1'_def)
  from expirationCheck_quiet [OF this]
  show ?thesis by (simp add: w1'_def w1_def)
qed

theorem expirationCheck_idempotent_witness:
  "failing world0 DbGetAllPeople = None \<and>
   (\<forall>i. failing world0 (DbMarkPersonExpired i) = None) \<and>
   startOfDay env0 1700003600000 = startOfDay env0 (clock world0) \<and>
   people (snd (expirationCheck env0
      ((snd (expirationCheck env0 world0))\<lparr>clock := 1700003600000, failing := noFailure\<rparr>))) =
     [alice\<lparr>status := False, updatedAt := 1700000000000\<rparr>,
      bob\<lparr>status := False, updatedAt := 1700000000000\<rparr>, carol] \<and>
   length (activityLogs (snd (expirationCheck env0
      ((snd (expirationCheck env0 world0))\<lparr>clock := 1700003600000, failing := noFailure\<rparr>)))) = 2"
proof -
  have h1: "failing world0 DbGetAllPeople = None"
    and h2: "\<forall>i. failing world0 (DbMarkPersonExpired i) = None"
    and h3: "startOfDay env0 1700003600000 = startOfDay env0 (clock world0)"
    by (simp_all add: concrete_defs)
  have first: "people (snd (expirationCheck env0 world0)) =
     [alice\<lparr>status := False, updatedAt := 1700000000000\<rparr>,
      bob\<lparr>status := False, updatedAt := 1700000000000\<rparr>, carol]"
    "length (activityLogs (snd (expirationCheck env0 world0))) = 2"
    by (simp_all add: concrete_defs expirationCheck_def getAllPeople_def markPersonExpired_def
        logActivity_def createActivityLog_def Let_def)
  from expirationCheck_idempotent [OF h1 h2 h3, of noFailure] h1 h2 h3 first
  show ?thesis by simp
qed

text \<open>
  Claim C4 as stated fails: the loop is inside one \<^verbatim>\<open>try\<close>, so an error of
  \<^verbatim>\<open>markPersonExpired\<close> for one row ends the run. Here Bob's update fails; Alice, who
  is loaded after Bob and whose own statements do not fail, stays active.
\<close>

theorem expirationCheck_abort_counterexample:
  "status alice \<and> pastExpiry env0 (clock world_mark_fails) alice \<and>
   status bob \<and> pastExpiry env0 (clock world_mark_fails) bob \<and>
   failing world_mark_fails (DbMarkPersonExpired (JInt (p_id bob))) = Some ''connection lost'' \<and>
   failing world_mark_fails (DbMarkPersonExpired (JInt (p_id alice))) = None \<and>
   failing world_mark_fails (DbCreateActivityLog (toString (p_id alice))) = None \<and>
   people world_mark_fails = [alice, bob, carol] \<and>
   expirationCheck env0 world_mark_fails =
     (Inl ''connection lost'',
      world_mark_fails\<lparr>console := [''Running expiration check...'',
                                     ''Error in expiration cron: connection lost'']\<rparr>)"
  by (simp add: concrete_defs expirationCheck_def getAllPeople_def markPersonExpired_def
        logActivity_def createActivityLog_def Let_def toString_def digitsOf.simps)

text \<open>
  Claim C4, amended. A failure while writing the log entry of a row does not end the run:
  whatever log writes fail, when the rows could be loaded and the status updates succeed,
  the run reaches its end and every row that satisfies the expiration condition is
  deactivated.
\<close>

theorem expirationCheck_log_failure_isolated:
  assumes "failing w DbGetAllPeople = None"
    and "\<forall>i. failing w (DbMarkPersonExpired i) = None"
    and "distinct (map p_id (people w))"
  shows "fst (expirationCheck e w) = Inr () \<and>
         people (snd (expirationCheck e w)) =
           map (\<lambda>p. if status p \<and> pastExpiry e (clock w) p
                     then p\<lparr>status := False, updatedAt := clock w\<rparr> else p) (people w)"
proof -
  have "people (snd (expirationCheck e w)) =
      map (\<lambda>q. if isExpired e (startOfDay e (clock w)) q then deactivated (clock w) q else q)
        (people w)"
    using expirationCheck_people [OF assms(1,2), of e] by_id_is_by_test [OF assms(3)] by simp
  then have "people (snd (expirationCheck e w)) =
      map (\<lambda>p. if status p \<and> pastExpiry e (clock w) p
                then p\<lparr>status := False, updatedAt := clock w\<rparr> else p) (people w)"
    by (simp add: deactivated_def isExpired_iff)
  then show ?thesis using expirationCheck_people [OF assms(1,2), of e] by simp
qed

theorem expirationCheck_log_failure_isolated_witness:
  "failing world_log_fails DbGetAllPeople = None \<and>
   (\<forall>i. failing world_log_fails (DbMarkPersonExpired i) = None) \<and>
   distinct (map p_id (people world_log_fails)) \<and>
   failing world_log_fails (DbCreateActivityLog (toString (p_id bob))) = Some ''connection lost'' \<and>
   fst (expirationCheck env0 world_log_fails) = Inr () \<and>
   people (snd (expirationCheck env0 world_log_fails)) =
     [alice\<lparr>status := False, updatedAt := 1700000000000\<rparr>,
      bob\<lparr>status := False, updatedAt := 1700000000000\<rparr>, carol]"
proof -
  have h1: "failing world_log_fails DbGetAllPeople = None"
    and h2: "\<forall>i. failing world_log_fails (DbMarkPersonExpired i) = None"
    and h3: "distinct (map p_id (people world_log_fails))"
    and h4: "failing world_log_fails (DbCreateActivityLog (toString (p_id bob))) =
             Some ''connection lost''"
    by (simp_all add: concrete_defs toString_def digitsOf.simps)
  from expirationCheck_log_failure_isolated [OF h1 h2 h3, of env0] h1 h2 h3 h4
  show ?thesis by (simp add: concrete_defs)
qed

subsection \<open>Updating a passport\<close>

lemma updateData_stripped:
  "updateData e req ''id'' = None"
  "updateData e req ''publicId'' = None"
  "updateData e req ''qrCodeUrl'' = None"
  "updateData e req ''createdBy'' = None"
  "updateData e req ''createdAt'' = None"
  "updateData e req ''updatedAt'' = None"
  by (simp_all add: updateData_def Let_def)

lemma setColumns_keeps:
  "v ''id'' = None \<Longrightarrow> p_id (setColumns v p) = p_id p"
  "v ''publicId'' = None \<Longrightarrow> publicId (setColumns v p) = publicId p"
  "v ''qrCodeUrl'' = None \<Longrightarrow> qrCodeUrl (setColumns v p) = qrCodeUrl p"
  "v ''createdBy'' = None \<Longrightarrow> createdBy (setColumns v p) = createdBy p"
  "v ''createdAt'' = None \<Longrightarrow> createdAt (setColumns v p) = createdAt p"
  by (simp_all add: setColumns_def intOr_def textOr_def textOptOr_def dateOr_def)

lemma updatePerson_people:
  "people (snd (updatePerson i v w)) = people w \<or>
   (\<exists>n. people (snd (updatePerson i v w)) =
      map (\<lambda>p. if p_id p = n then setColumns (v(''updatedAt'' \<mapsto> JDate (clock w))) p else p)
        (people w))"
  by (auto simp: updatePerson_def Let_def split: option.splits jsnum.splits)

lemma updatePerson_frame:
  "activityLogs (snd (updatePerson i v w)) = activityLogs w"
  "failing (snd (updatePerson i v w)) = failing w"
  "clock (snd (updatePerson i v w)) = clock w"
  "files (snd (updatePerson i v w)) = files w"
  by (simp_all add: updatePerson_def Let_def split: option.splits jsnum.splits)

lemma putPerson_people:
  "people (snd (putPerson e req w)) =
   people (snd (updatePerson (Number e (Some (paramsId req))) (updateData e req) w))"
proof -
  obtain r w1 where U: "updatePerson (Number e (Some (paramsId req))) (updateData e req) w = (r, w1)"
    by (cases "updatePerson (Number e (Some (paramsId req))) (updateData e req) w")
  show ?thesis
    unfolding putPerson_def U
    by (simp add: failUpdate_def logActivity_frame Let_def split: sum.splits option.splits)
qed

text \<open>
  Claim C1. Whatever the form of a \<^verbatim>\<open>PUT /api/people/:id\<close> request contains and
  whatever fails, every row of \<^verbatim>\<open>people\<close> has the same \<open>publicId\<close>, \<open>qrCodeUrl\<close>,
  \<open>createdBy\<close>, \<open>createdAt\<close> (and id) after the request as before: the handler removes
  these keys from the payload before \<^verbatim>\<open>updatePerson\<close> writes it.
\<close>

theorem putPerson_keeps_identity:
  "list_all2
     (\<lambda>p p'. publicId p' = publicId p \<and> qrCodeUrl p' = qrCodeUrl p \<and>
              createdBy p' = createdBy p \<and> createdAt p' = createdAt p \<and> p_id p' = p_id p)
     (people w) (people (snd (putPerson e req w)))"
proof -
  let ?R = "\<lambda>p p'. publicId p' = publicId p \<and> qrCodeUrl p' = qrCodeUrl p \<and>
              createdBy p' = createdBy p \<and> createdAt p' = createdAt p \<and> p_id p' = p_id p"
  let ?v = "(updateData e req)(''updatedAt'' \<mapsto> JDate (clock w))"
  have keys: "?v ''id'' = None" "?v ''publicId'' = None" "?v ''qrCodeUrl'' = None"
    "?v ''createdBy'' = None" "?v ''createdAt'' = None"
    by (simp_all add: updateData_stripped)
  have same: "list_all2 ?R xs xs" for xs :: "person list"
    by (simp add: list_all2_same)
  have upd: "list_all2 ?R xs (map (\<lambda>p. if p_id p = n then setColumns ?v p else p) xs)"
    for xs :: "person list" and n
    using keys by (simp add: list_all2_map2 list_all2_same setColumns_keeps)
  from updatePerson_people [of "Number e (Some (paramsId req))" "updateData e req" w]
  show ?thesis unfolding putPerson_people using same upd by auto
qed

lemma updatePerson_unknown:
  assumes "\<forall>p \<in> set (people w). p_id p \<noteq> n"
  shows "people (snd (updatePerson (JInt n) v w)) = people w \<and>
         (\<forall>p. fst (updatePerson (JInt n) v w) \<noteq> Inr (Some p))"
proof -
  have "find (\<lambda>p. p_id p = n) (people w) = None"
    using assms by (simp add: find_None_iff)
  moreover have "map (\<lambda>p. if p_id p = n then f p else p) (people w) = people w" for f
    using assms by (simp add: map_idI)
  ultimately show ?thesis
    by (simp add: updatePerson_def Let_def split: option.splits)
qed

text \<open>
  Claim C5 against the code. For an id that no row has, the handler answers with status 400,
  not 404: \<^verbatim>\<open>updatePerson\<close> returns \<^verbatim>\<open>undefined\<close> and reading \<^verbatim>\<open>person.fullName\<close>
  throws. No row changes and no log entry is written.
\<close>

theorem putPerson_unknown_id:
  assumes "Number e (Some (paramsId req)) = JInt n"
    and "\<forall>p \<in> set (people w). p_id p \<noteq> n"
  shows "code (fst (putPerson e req w)) = 400 \<and>
         activityLogs (snd (putPerson e req w)) = activityLogs w \<and>
         people (snd (putPerson e req w)) = people w"
proof -
  obtain r w1 where U: "updatePerson (JInt n) (updateData e req) w = (r, w1)"
    by (cases "updatePerson (JInt n) (updateData e req) w")
  have r: "\<forall>p. r \<noteq> Inr (Some p)" and p1: "people w1 = people w"
    using updatePerson_unknown [OF assms(2), of "updateData e req"] U by simp_all
  have l1: "activityLogs w1 = activityLogs w"
    using updatePerson_frame(1) [of "JInt n" "updateData e req" w] U by simp
  show ?thesis
    unfolding putPerson_def assms(1) U using r p1 l1
    by (simp add: failUpdate_def split: sum.splits option.splits)
qed

theorem putPerson_unknown_id_witness:
  "Number env0 (Some (paramsId req_unknown)) = JInt 999 \<and>
   map p_id (people world0) = [1, 2, 3] \<and>
   putPerson env0 req_unknown world0 =
     (\<lparr>code = 400, json = Message ''Cannot read properties of undefined (reading 'fullName')''\<rparr>,
      world0\<lparr>console :=
        [''Error updating person: Cannot read properties of undefined (reading 'fullName')'']\<rparr>)"
proof -
  have h1: "Number env0 (Some (paramsId req_unknown)) = JInt 999"
    and h2: "\<forall>p \<in> set (people world0). p_id p \<noteq> 999"
    by (simp_all add: Number_def env0_def req_unknown_def world0_def alice_def bob_def carol_def)
  have ev: "putPerson env0 req_unknown world0 =
     (\<lparr>code = 400, json = Message ''Cannot read properties of undefined (reading 'fullName')''\<rparr>,
      world0\<lparr>console :=
        [''Error updating person: Cannot read properties of undefined (reading 'fullName')'']\<rparr>)"
    by (simp add: putPerson_def updatePerson_def h1 Let_def illTyped_def peopleColumns_def
        updateData_def req_unknown_def Number_def env0_def world0_def noFailure_def
        alice_def bob_def carol_def failUpdate_def messageOr_def undefinedFullName_def)
  have ids: "map p_id (people world0) = [1, 2, 3]"
    by (simp add: world0_def alice_def bob_def carol_def)
  from putPerson_unknown_id [OF h1 h2] h1 ids ev show ?thesis by simp
qed

subsection \<open>Groups and users\<close>

lemma getGroup_world: "snd (getGroup i w) = w"
  by (simp add: getGroup_def split: option.splits jsnum.splits sum.splits)

lemma deleteGroup_people: "people (snd (deleteGroup i w)) = people w"
  by (simp add: deleteGroup_def split: option.splits jsnum.splits)

lemma deleteGroupHandler_people:
  "people (snd (deleteGroupHandler e req w)) = people w"
proof -
  obtain r where G: "getGroup (Number e (Some (paramsId req))) w = (r, w)"
    using getGroup_world [of "Number e (Some (paramsId req))" w]
    by (cases "getGroup (Number e (Some (paramsId req))) w") simp
  obtain d w2 where D: "deleteGroup (Number e (Some (paramsId req))) w = (d, w2)"
    by (cases "deleteGroup (Number e (Some (paramsId req))) w")
  have "people w2 = people w"
    using deleteGroup_people [of "Number e (Some (paramsId req))" w] D by simp
  then show ?thesis
    unfolding deleteGroupHandler_def Let_def G
    by (simp add: D failDeleteGroup_def logActivity_frame split: sum.splits option.splits)
qed

text \<open>
  Claim C10. When a group exists and the two statements on \<^verbatim>\<open>groups\<close> do not fail,
  \<^verbatim>\<open>DELETE /api/groups/:id\<close> removes the rows of \<^verbatim>\<open>groups\<close> with the id and leaves
  the table \<^verbatim>\<open>people\<close> as it was: a passport of the deleted group keeps its \<open>groupId\<close>.
\<close>

theorem deleteGroupHandler_orphans:
  assumes "Number e (Some (paramsId req)) = JInt n"
    and "find (\<lambda>g. g_id g = n) (groups w) = Some g"
    and "failing w (DbGetGroup (JInt n)) = None"
    and "failing w (DbDeleteGroup (JInt n)) = None"
  shows "fst (deleteGroupHandler e req w) = \<lparr>code = 200, json = Success\<rparr> \<and>
         groups (snd (deleteGroupHandler e req w)) = filter (\<lambda>g. g_id g \<noteq> n) (groups w) \<and>
         people (snd (deleteGroupHandler e req w)) = people w"
proof -
  have G: "getGroup (JInt n) w = (Inr (Some g), w)"
    using assms(2,3) by (simp add: getGroup_def)
  have D: "deleteGroup (JInt n) w = (Inr (), w\<lparr>groups := filter (\<lambda>g. g_id g \<noteq> n) (groups w)\<rparr>)"
    using assms(4) by (simp add: deleteGroup_def)
  show ?thesis
    unfolding deleteGroupHandler_def Let_def assms(1) G
    by (simp add: D logActivity_frame)
qed

theorem deleteGroupHandler_orphans_witness:
  "Number env0 (Some (paramsId req_group)) = JInt 1 \<and>
   find (\<lambda>g. g_id g = 1) (groups world_groups) = Some staff \<and>
   failing world_groups (DbGetGroup (JInt 1)) = None \<and>
   failing world_groups (DbDeleteGroup (JInt 1)) = None \<and>
   fst (deleteGroupHandler env0 req_group world_groups) = \<lparr>code = 200, json = Success\<rparr> \<and>
   groups (snd (deleteGroupHandler env0 req_group world_groups)) = [guests] \<and>
   people (snd (deleteGroupHandler env0 req_group world_groups)) = [alice, bob, carol] \<and>
   map groupId (people (snd (deleteGroupHandler env0 req_group world_groups))) = [1, 1, 2]"
proof -
  have h1: "Number env0 (Some (paramsId req_group)) = JInt 1"
    and h2: "find (\<lambda>g. g_id g = 1) (groups world_groups) = Some staff"
    and h3: "failing world_groups (DbGetGroup (JInt 1)) = None"
    and h4: "failing world_groups (DbDeleteGroup (JInt 1)) = None"
    by (simp_all add: Number_def env0_def req_group_def world_groups_def world0_def staff_def
        guests_def noFailure_def)
  from deleteGroupHandler_orphans [OF h1 h2 h3 h4] h1 h2 h3 h4
  show ?thesis
    by (simp add: world_groups_def world0_def staff_def guests_def alice_def bob_def carol_def)
qed

text \<open>
  Claim C9. When a user with the id exists, \<^verbatim>\<open>upsertUser\<close> leaves the id, \<open>isMainAdmin\<close>,
  \<open>isActive\<close> and the creation time of every row as they were, whatever the input carries,
  and leaves every other user's row untouched; the row it returns differs from the stored one
  only in the profile attributes that the input gives and in the update time.
\<close>

theorem upsertUser_conflict_frame:
  assumes "find (\<lambda>u. u_id u = in_id d) (users w) = Some old"
  shows "list_all2
           (\<lambda>u u'. u_id u' = u_id u \<and> isMainAdmin u' = isMainAdmin u \<and>
                    isActive u' = isActive u \<and> u_createdAt u' = u_createdAt u \<and>
                    (u_id u \<noteq> in_id d \<longrightarrow> u' = u))
           (users w) (users (snd (upsertUser d w))) \<and>
         (\<forall>u'. fst (upsertUser d w) = Inr u' \<longrightarrow>
            u_id u' = u_id old \<and> isMainAdmin u' = isMainAdmin old \<and>
            isActive u' = isActive old \<and> u_createdAt u' = u_createdAt old \<and>
            email u' = orKeep (in_email d) (email old) \<and>
            firstName u' = orKeep (in_firstName d) (firstName old) \<and>
            lastName u' = orKeep (in_lastName d) (lastName old) \<and>
            profileImageUrl u' = orKeep (in_profileImageUrl d) (profileImageUrl old) \<and>
            u_updatedAt u' = clock w)"
  using assms
  by (cases "failing w (DbUpsertUser (in_id d))")
     (simp_all add: upsertUser_def Let_def list_all2_map2 list_all2_same)

theorem upsertUser_conflict_frame_witness:
  "find (\<lambda>u. u_id u = in_id dave_again) (users world_groups) = Some dave \<and>
   users (snd (upsertUser dave_again world_groups)) =
     [dave\<lparr>email := Some ''d@example.org'', firstName := None, lastName := Some ''Doe'',
           u_updatedAt := 1700000000000\<rparr>] \<and>
   map isMainAdmin (users (snd (upsertUser dave_again world_groups))) = [False] \<and>
   map isActive (users (snd (upsertUser dave_again world_groups))) = [True]"
proof -
  have h: "find (\<lambda>u. u_id u = in_id dave_again) (users world_groups) = Some dave"
    by (simp add: dave_again_def world_groups_def dave_def)
  have ev: "users (snd (upsertUser dave_again world_groups)) =
     [dave\<lparr>email := Some ''d@example.org'', firstName := None, lastName := Some ''Doe'',
           u_updatedAt := 1700000000000\<rparr>]"
    by (simp add: upsertUser_def Let_def dave_again_def world_groups_def world0_def dave_def
        noFailure_def orKeep_def)
  from upsertUser_conflict_frame [OF h] h ev
  show ?thesis by (simp add: dave_def)
qed

subsection \<open>Listing the activity log\<close>

lemma filter_unique_key:
  "distinct (map f xs) \<Longrightarrow>
   filter (\<lambda>u. f u = k) xs = (case find (\<lambda>u. f u = k) xs of None \<Rightarrow> [] | Some u \<Rightarrow> [u])"
proof (induction xs)
  case Nil
  show ?case by simp
next
  case (Cons x xs)
  show ?case
  proof (cases "f x = k")
    case True
    then have "\<forall>u \<in> set xs. f u \<noteq> k" using Cons.prems by (force simp: image_iff)
    then have "filter (\<lambda>u. f u = k) xs = []" by (simp add: filter_empty_conv)
    then show ?thesis using True by simp
  next
    case False
    then show ?thesis using Cons by simp
  qed
qed

lemma leftJoinUsers_unique:
  assumes "distinct (map u_id us)"
  shows "leftJoinUsers ls us = map (\<lambda>l. (l, find (\<lambda>u. u_id u = performedBy l) us)) ls"
  by (induction ls)
     (simp_all add: leftJoinUsers_def filter_unique_key [OF assms] split: option.splits)

lemma truncate_withUser: "activityLog.truncate (withUser r) = fst r"
  by (simp add: withUser_def activityLog.truncate_def)

lemma withUser_fields:
  "timestamp (withUser r) = timestamp (fst r)"
  "performedBy (withUser r) = performedBy (fst r)"
  "performedByUser (withUser r) = snd r"
  by (simp_all add: withUser_def)

text \<open>
  Claim C8. When the query does not fail (user ids being unique), \<^verbatim>\<open>getAllActivityLogs\<close>
  returns every entry of the log exactly once, newest first by timestamp, each with the user
  whose id is its performer, and with no user when no user has that id; so an entry of the
  performer "system", which is no user's id, comes without a user.
\<close>

theorem getAllActivityLogs_listing:
  assumes "failing w DbGetAllActivityLogs = None"
    and "distinct (map u_id (users w))"
  shows "\<exists>rs. fst (getAllActivityLogs w) = Inr rs \<and>
           mset (map activityLog.truncate rs) = mset (activityLogs w) \<and>
           sorted_wrt (\<lambda>a b. timestamp a \<ge> timestamp b) rs \<and>
           (\<forall>r \<in> set rs. performedByUser r = find (\<lambda>u. u_id u = performedBy r) (users w)) \<and>
           ((\<forall>u \<in> set (users w). u_id u \<noteq> ''system'') \<longrightarrow>
            (\<forall>r \<in> set rs. performedBy r = ''system'' \<longrightarrow> performedByUser r = None))"
proof -
  define js where "js = map (\<lambda>l. (l, find (\<lambda>u. u_id u = performedBy l) (users w))) (activityLogs w)"
  define ss where "ss = sort_key (\<lambda>r. timestamp (fst r)) js"
  define rs where "rs = map withUser (rev ss)"
  have res: "fst (getAllActivityLogs w) = Inr rs"
    using assms(1)
    by (simp add: getAllActivityLogs_def leftJoinUsers_unique [OF assms(2)] rs_def ss_def js_def)
  have "map activityLog.truncate rs = map fst (rev ss)"
    by (simp add: rs_def truncate_withUser [abs_def] comp_def)
  then have "mset (map activityLog.truncate rs) = mset (map fst js)"
    by (simp add: ss_def)
  then have perm: "mset (map activityLog.truncate rs) = mset (activityLogs w)"
    by (simp add: js_def comp_def)
  have "sorted (map (\<lambda>r. timestamp (fst r)) ss)"
    by (simp add: ss_def)
  then have "sorted_wrt (\<lambda>a b. timestamp (fst a) \<le> timestamp (fst b)) ss"
    by (simp add: sorted_wrt_map)
  then have "sorted_wrt (\<lambda>a b. timestamp (fst b) \<le> timestamp (fst a)) (rev ss)"
    by (simp add: sorted_wrt_rev)
  then have desc: "sorted_wrt (\<lambda>a b. timestamp a \<ge> timestamp b) rs"
    by (simp add: rs_def sorted_wrt_map withUser_fields)
  have enr: "\<forall>r \<in> set rs. performedByUser r = find (\<lambda>u. u_id u = performedBy r) (users w)"
    by (auto simp: rs_def ss_def js_def withUser_fields)
  have sys: "(\<forall>u \<in> set (users w). u_id u \<noteq> ''system'') \<longrightarrow>
             (\<forall>r \<in> set rs. performedBy r = ''system'' \<longrightarrow> performedByUser r = None)"
    using enr by (auto simp: find_None_iff)
  from res perm desc enr sys show ?thesis by blast
qed

theorem getAllActivityLogs_listing_witness:
  "failing world_logs DbGetAllActivityLogs = None \<and>
   map u_id (users world_logs) = [''42''] \<and>
   fst (getAllActivityLogs world_logs) =
     Inr [withUser (log_dave, Some dave), withUser (log_bypass, None),
          withUser (log_system, None)]"
proof -
  have h1: "failing world_logs DbGetAllActivityLogs = None"
    and h2: "distinct (map u_id (users world_logs))"
    by (simp_all add: world_logs_def world0_def noFailure_def dave_def)
  have ev: "fst (getAllActivityLogs world_logs) =
     Inr [withUser (log_dave, Some dave), withUser (log_bypass, None),
          withUser (log_system, None)]"
    by (simp add: getAllActivityLogs_def leftJoinUsers_def world_logs_def world0_def
        noFailure_def dave_def log_dave_def log_bypass_def log_system_def autoLog_def)
  have ids: "map u_id (users world_logs) = [''42'']"
    by (simp add: world_logs_def dave_def)
  from getAllActivityLogs_listing [OF h1 h2] h1 ids ev show ?thesis by simp
qed

subsection \<open>Deleting and creating a passport\<close>

lemma getPerson_ok:
  "failing w (DbGetPerson (JInt n)) = None \<Longrightarrow>
   getPerson (JInt n) w = (Inr (find (\<lambda>p. p_id p = n) (people w)), w)"
  by (simp add: getPerson_def)







lemma find_snoc_fresh:
  "\<forall>q \<in> set xs. \<not> P q \<Longrightarrow> P p \<Longrightarrow> find P (xs @ [p]) = Some p"
  by (induction xs) simp_all

lemma createPerson_ok:
  "failing w DbCreatePerson = None \<Longrightarrow>
   \<exists>p. createPerson d pub w =
          (Inr p, w\<lparr>people := people w @ [p], nextPersonId := nextPersonId w + 1\<rparr>) \<and>
        p_id p = nextPersonId w \<and> publicId p = pub \<and> qrCodeUrl p = None \<and>
        fullName p = in_fullName d \<and> passportNumber p = in_passportNumber d \<and>
        expirationDate p = in_expirationDate d \<and> status p = in_status d \<and>
        groupId p = in_groupId d \<and> createdBy p = in_createdBy d"
  by (simp add: createPerson_def Let_def)

text \<open>
  Claim C7. When the input is valid, the insert and the final read do not fail and the
  renderer throws, \<^verbatim>\<open>POST /api/people\<close> answers with status 200 and the new row, which
  is stored and has no QR-code url; the renderer's error is printed, and nothing is raised.
\<close>

theorem postPerson_qr_failure:
  assumes "parsePerson e (userInput e req) = Inr d"
    and "failing w DbCreatePerson = None"
    and "failing w (QrToFile (qrCodesPath e (''qr-'' @ pub @ ''.png''))) = Some m"
    and "failing w (DbGetPerson (JInt (nextPersonId w))) = None"
    and "\<forall>q \<in> set (people w). p_id q \<noteq> nextPersonId w"
  shows "\<exists>p. fst (postPerson e pub req w) = \<lparr>code = 200, json = PersonJson (Some p)\<rparr> \<and>
             people (snd (postPerson e pub req w)) = people w @ [p] \<and>
             qrCodeUrl p = None \<and> publicId p = pub \<and> fullName p = in_fullName d \<and>
             passportNumber p = in_passportNumber d \<and> status p = in_status d \<and>
             ''Error generating QR code: '' @ m \<in> set (console (snd (postPerson e pub req w)))"
proof -
  obtain p where C: "createPerson d pub w =
          (Inr p, w\<lparr>people := people w @ [p], nextPersonId := nextPersonId w + 1\<rparr>)"
    and P: "p_id p = nextPersonId w" "publicId p = pub" "qrCodeUrl p = None"
      "fullName p = in_fullName d" "passportNumber p = in_passportNumber d"
      "status p = in_status d"
    using createPerson_ok [OF assms(2), of d pub] by blast
  define w1 where "w1 = w\<lparr>people := people w @ [p], nextPersonId := nextPersonId w + 1\<rparr>"
  define w2 where "w2 = w1\<lparr>console := console w1 @ [''Error generating QR code: '' @ m]\<rparr>"
  have Q: "generateQRCode e pub (protocol req) (hostname req) w1 = ([], w2)"
    using assms(3) by (simp add: generateQRCode_def Let_def w1_def w2_def)
  define w4 where "w4 = logActivity (PassportCreated (fullName p)) ''passport''
                          (toString (p_id p)) (userId req)
                          (Some [(''passportNumber'', JStr (passportNumber p))]) w2"
  have p4: "people w4 = people w @ [p]" and f4: "failing w4 = failing w"
    by (simp_all add: w4_def logActivity_frame w2_def w1_def)
  have c4: "''Error generating QR code: '' @ m \<in> set (console w4)"
    by (auto simp: w4_def logActivity_def createActivityLog_def Let_def w2_def w1_def
        split: option.splits)
  have "find (\<lambda>q. p_id q = nextPersonId w) (people w @ [p]) = Some p"
    using assms(5) P(1) by (simp add: find_snoc_fresh)
  then have G: "getPerson (JInt (p_id p)) w4 = (Inr (Some p), w4)"
    using assms(4) by (simp add: getPerson_ok f4 p4 P(1))
  have C1: "createPerson d pub w = (Inr p, w1)"
    using C by (simp add: w1_def)
  have R: "postPerson e pub req w = (\<lparr>code = 200, json = PersonJson (Some p)\<rparr>, w4)"
    by (simp add: postPerson_def assms(1) C1 Q Let_def w4_def [symmetric] G)
  show ?thesis
    unfolding R using P p4 c4 by (intro exI [of _ p]) auto
qed

theorem postPerson_qr_failure_witness:
  "parsePerson env0 (userInput env0 req_create) =
     Inr \<lparr>in_fullName = ''Dora'', in_birthDate = ''1993-08-08'', in_passportNumber = ''P-4'',
          in_expirationDate = ''2030-01-01'', in_notes = [], in_groupId = 2,
          in_status = True, in_photoUrl = [], in_createdBy = ''admin_user''\<rparr> \<and>
   failing world_qr_fails DbCreatePerson = None \<and>
   failing world_qr_fails (QrToFile (qrCodesPath env0 (''qr-'' @ ''d4'' @ ''.png''))) =
     Some ''disk full'' \<and>
   failing world_qr_fails (DbGetPerson (JInt (nextPersonId world_qr_fails))) = None \<and>
   map p_id (people world_qr_fails) = [1, 2, 3] \<and> nextPersonId world_qr_fails = 4 \<and>
   fst (postPerson env0 ''d4'' req_create world_qr_fails) =
     \<lparr>code = 200, json = PersonJson (Some dora)\<rparr> \<and>
   people (snd (postPerson env0 ''d4'' req_create world_qr_fails)) = [alice, bob, carol, dora] \<and>
   qrCodeUrl dora = None"
proof -
  have h1: "parsePerson env0 (userInput env0 req_create) =
      Inr \<lparr>in_fullName = ''Dora'', in_birthDate = ''1993-08-08'', in_passportNumber = ''P-4'',
           in_expirationDate = ''2030-01-01'', in_notes = [], in_groupId = 2,
           in_status = True, in_photoUrl = [], in_createdBy = ''admin_user''\<rparr>"
    by (simp add: env0_def demoParse_def strOf_def userInput_def req_create_def Number_def
        restrict_map_def)
  have h2: "failing world_qr_fails DbCreatePerson = None"
    and h3: "failing world_qr_fails (QrToFile (qrCodesPath env0 (''qr-'' @ ''d4'' @ ''.png''))) =
             Some ''disk full''"
    and h4: "failing world_qr_fails (DbGetPerson (JInt (nextPersonId world_qr_fails))) = None"
    and h5: "\<forall>q \<in> set (people world_qr_fails). p_id q \<noteq> nextPersonId world_qr_fails"
    by (simp_all add: world_qr_fails_def world0_def failOn_def env0_def alice_def bob_def
        carol_def)
  have pw: "people world_qr_fails = [alice, bob, carol]" "nextPersonId world_qr_fails = 4"
    "clock world_qr_fails = 1700000000000"
    by (simp_all add: world_qr_fails_def world0_def)
  from postPerson_qr_failure [OF h1 h2 h3 h4 h5]
  obtain p where p: "fst (postPerson env0 ''d4'' req_create world_qr_fails) =
        \<lparr>code = 200, json = PersonJson (Some p)\<rparr>"
    "people (snd (postPerson env0 ''d4'' req_create world_qr_fails)) =
        people world_qr_fails @ [p]"
    by blast
  have ev: "fst (postPerson env0 ''d4'' req_create world_qr_fails) =
        \<lparr>code = 200, json = PersonJson (Some dora)\<rparr>"
    unfolding postPerson_def h1
    by (simp add: createPerson_def generateQRCode_def getPerson_def logActivity_def
        createActivityLog_def Let_def world_qr_fails_def world0_def failOn_def env0_def
        alice_def bob_def carol_def dora_def req_create_def toString_def digitsOf.simps)
  from p ev have "p = dora" by simp
  with p ev h1 h2 h3 h4 pw show ?thesis
    by (simp add: dora_def alice_def bob_def carol_def)
qed

end
